theory Spec2Isabelle
  imports Main "HOL-Library.Word" "HOL-Library.AList"
begin

section \<open>Values of the host language\<close>

text \<open>
  A \<open>Uint8Array\<close> is a list of bytes. A JavaScript \<open>number\<close> that holds a size is a
  double: \<open>NaN\<close>, an infinity, or a finite value, which for the results of
  \<open>parseInt\<close> and \<open>length\<close> is an integer (\<open>Num\<close>). Negative zero is \<open>Num 0\<close>; the two
  zeros compare alike.
\<close>

type_synonym Uint8Array = "8 word list"

datatype number = NaN | Num int | PosInfinity | NegInfinity

text \<open>The comparison \<open>n < 0\<close> of the host language: false for \<open>NaN\<close>.\<close>

fun lt_zero :: "number \<Rightarrow> bool" where
  "lt_zero NaN = False"
| "lt_zero (Num i) = (i < 0)"
| "lt_zero PosInfinity = False"
| "lt_zero NegInfinity = True"

text \<open>
  The double nearest to an integer (ties to the even significand): integers below
  \<open>2^53\<close> in magnitude are exact, larger ones keep their 53 leading bits, rounded,
  and a magnitude that rounds to \<open>2^1024\<close> or more is an infinity.
\<close>

function bitlen :: "int \<Rightarrow> nat" where
  "bitlen n = (if n \<le> 0 then 0 else Suc (bitlen (n div 2)))"
  by auto
termination
  by (relation "measure nat") auto

declare bitlen.simps [simp del]

definition toNumber :: "int \<Rightarrow> number" where
  "toNumber i =
     (let a = \<bar>i\<bar>
      in if a < 2 ^ 53 then Num i
         else
           (let e = bitlen a - 53;
                q = a div 2 ^ e;
                r = a mod 2 ^ e;
                q' = (if 2 * r > 2 ^ e \<or> (2 * r = 2 ^ e \<and> odd q) then q + 1 else q);
                v = q' * 2 ^ e
            in if v \<ge> 2 ^ 1024 then (if i < 0 then NegInfinity else PosInfinity)
               else Num (if i < 0 then - v else v)))"

definition byteLength :: "Uint8Array \<Rightarrow> number" where
  "byteLength b = Num (int (length b))"

text \<open>
  \<open>parseInt(s, 10)\<close>: leading white space is skipped, one sign is read, then the
  longest run of decimal digits; no digit at all gives \<open>NaN\<close>, otherwise the result
  is the double of the signed value of the digits. (Past the twentieth significant
  digit the language lets a host read the digits as zeros; the model reads them all.)
  Characters are the code units \<open>0..255\<close> of a header value.
\<close>

definition StrWhiteSpaceChar :: "char \<Rightarrow> bool" where
  "StrWhiteSpaceChar c = (of_char c \<in> {9, 10, 11, 12, 13, 32, 160 :: nat})"

definition isDigit :: "char \<Rightarrow> bool" where
  "isDigit c = (48 \<le> (of_char c :: nat) \<and> (of_char c :: nat) \<le> 57)"

definition digitsValue :: "string \<Rightarrow> int" where
  "digitsValue z = foldl (\<lambda>acc c. acc * 10 + (int (of_char c) - 48)) 0 z"

definition parseInt :: "string \<Rightarrow> number" where
  "parseInt s =
     (let S = dropWhile StrWhiteSpaceChar s;
          sign = (if S \<noteq> [] \<and> hd S = CHR ''-'' then - 1 else 1 :: int);
          S' = (if S \<noteq> [] \<and> (hd S = CHR ''+'' \<or> hd S = CHR ''-'') then tl S else S);
          Z = takeWhile isDigit S'
      in if Z = [] then NaN else toNumber (sign * digitsValue Z))"

text \<open>Decimal rendering of a status code, as string concatenation with a number does.\<close>

fun string_of_nat :: "nat \<Rightarrow> string" where
  "string_of_nat n =
     (if n < 10 then [char_of (48 + n)]
      else string_of_nat (n div 10) @ [char_of (48 + n mod 10)])"

declare string_of_nat.simps [simp del]

section \<open>Errors\<close>

datatype ErrorCode = EPERM | ENOENT | EIO | EACCES | EISDIR | EINVAL

text \<open>
  \<open>ApiError code text\<close> carries the path or the message it was built with.
  \<open>TypeError\<close> is what the host raises when a method is called on \<open>undefined\<close>.
\<close>

datatype error = ApiError ErrorCode string | TypeError

section \<open>The transport primitive\<close>

text \<open>
  \<open>fetch\<close> is a black box. A server answers a request as a function of the requests
  made before it, so two requests for one URL may be answered differently; every
  request is appended to the log \<open>requests\<close>. The promise \<open>fetch\<close> returns is either
  rejected with a message or resolved with a response, whose body readers
  (\<open>arrayBuffer\<close>, \<open>json\<close>) may themselves reject with a message.
\<close>

datatype ListingTree = Listing "(string \<times> ListingTree option) list"

datatype http_method = GET | HEAD

type_synonym request = "http_method \<times> string"

record response =
  ok :: bool
  status :: nat
  headers :: "string \<rightharpoonup> string"
  arrayBuffer :: "string + Uint8Array"
  json :: "string + ListingTree"

datatype fetch_outcome = Rejects string | Resolves response

record network =
  server :: "request list \<Rightarrow> request \<Rightarrow> fetch_outcome"
  requests :: "request list"

definition fetch :: "request \<Rightarrow> network \<Rightarrow> fetch_outcome \<times> network" where
  "fetch rq net = (server net (requests net) rq, net\<lparr>requests := requests net @ [rq]\<rparr>)"

text \<open>\<open>convertError\<close>: every rejection becomes \<open>EIO\<close> with the original message.\<close>

definition convertError :: "string \<Rightarrow> error" where
  "convertError msg = ApiError EIO msg"

text \<open>
  \<open>fetchFile(p, type)\<close> after \<open>fetch(p)\<close> has settled, one definition per download
  type. The \<open>default\<close> branch of the source's switch is excluded by the type of
  \<open>type\<close>.
\<close>

definition fetchFile_check :: "fetch_outcome \<Rightarrow> error + response" where
  "fetchFile_check out =
     (case out of
        Rejects msg \<Rightarrow> Inl (convertError msg)
      | Resolves r \<Rightarrow>
          if \<not> ok r
          then Inl (ApiError EIO (''fetch error: response returned code '' @ string_of_nat (status r)))
          else Inr r)"

definition fetchFile_buffer_settled :: "fetch_outcome \<Rightarrow> error + Uint8Array" where
  "fetchFile_buffer_settled out =
     (case fetchFile_check out of
        Inl e \<Rightarrow> Inl e
      | Inr r \<Rightarrow> (case arrayBuffer r of Inl msg \<Rightarrow> Inl (convertError msg) | Inr b \<Rightarrow> Inr b))"

definition fetchFile_json_settled :: "fetch_outcome \<Rightarrow> error + ListingTree" where
  "fetchFile_json_settled out =
     (case fetchFile_check out of
        Inl e \<Rightarrow> Inl e
      | Inr r \<Rightarrow> (case json r of Inl msg \<Rightarrow> Inl (convertError msg) | Inr t \<Rightarrow> Inr t))"

definition fetchFile_buffer :: "string \<Rightarrow> network \<Rightarrow> (error + Uint8Array) \<times> network" where
  "fetchFile_buffer p net =
     (case fetch (GET, p) net of (out, net') \<Rightarrow> (fetchFile_buffer_settled out, net'))"

text \<open>\<open>fetchSize(p)\<close>: a HEAD request; the size is \<open>parseInt(header || '-1', 10)\<close>.\<close>

definition headerOrDefault :: "string option \<Rightarrow> string" where
  "headerOrDefault h = (case h of None \<Rightarrow> ''-1'' | Some v \<Rightarrow> if v = [] then ''-1'' else v)"

definition fetchSize :: "string \<Rightarrow> network \<Rightarrow> (error + number) \<times> network" where
  "fetchSize p net =
     (case fetch (HEAD, p) net of (out, net') \<Rightarrow>
        (case out of
           Rejects msg \<Rightarrow> (Inl (convertError msg), net')
         | Resolves r \<Rightarrow>
             if \<not> ok r
             then (Inl (ApiError EIO (''fetch HEAD error: response returned code '' @ string_of_nat (status r))), net')
             else (Inr (parseInt (headerOrDefault (headers r ''Content-Length''))), net')))"

text \<open>
  \<open>fetchSize\<close> suspends at \<open>await fetch(...)\<close>. \<open>fetchSize_settled\<close> is the part that
  runs when the request has settled.
\<close>

definition fetchSize_settled :: "fetch_outcome \<Rightarrow> error + number" where
  "fetchSize_settled out =
     (case out of
        Rejects msg \<Rightarrow> Inl (convertError msg)
      | Resolves r \<Rightarrow>
          if \<not> ok r
          then Inl (ApiError EIO (''fetch HEAD error: response returned code '' @ string_of_nat (status r)))
          else Inr (parseInt (headerOrDefault (headers r ''Content-Length''))))"

section \<open>The listing index\<close>

text \<open>
  The stat record of the generic file-system layer, reduced to the fields this
  backend reads and writes: the size (\<open>-1\<close> while unknown), the mode bits and the
  payload slot \<open>fileData\<close> that caches a file's bytes (\<open>None\<close> is \<open>null\<close>).
\<close>

record Stats =
  st_size :: number
  st_mode :: nat
  fileData :: "Uint8Array option"

text \<open>
  Modelled from the spec: \<open>FileIndex.ts\<close> (\<open>FileIndex\<close>, \<open>IndexFileInode\<close>,
  \<open>IndexDirInode\<close>, the two type guards, \<open>getInode\<close>, \<open>files\<close>, \<open>FromListing\<close>) is not
  among the sources. A node is a tagged variant: a file node carries its stat record
  (\<open>inode.data\<close>), a directory node carries a stat record and the mapping from child
  names to child nodes, in insertion order.
\<close>

datatype IndexInode =
    IndexFileInode Stats
  | IndexDirInode Stats "(string \<times> IndexInode) list"

text \<open>
  Modelled from the spec: the type guards of \<open>FileIndex.ts\<close>. They take the result of
  \<open>getInode\<close>, which may be absent, and hold only of a node of their kind.
\<close>

fun isIndexFileInode :: "IndexInode option \<Rightarrow> bool" where
  "isIndexFileInode (Some (IndexFileInode s)) = True"
| "isIndexFileInode _ = False"

fun isIndexDirInode :: "IndexInode option \<Rightarrow> bool" where
  "isIndexDirInode (Some (IndexDirInode s ls)) = True"
| "isIndexDirInode _ = False"

text \<open>
  Modelled from the spec: path normalisation of \<open>FileIndex.ts\<close>. One leading
  separator is stripped, the rest is split on the separator, and the empty segments
  a trailing separator leaves are ignored; the empty path is the root.
\<close>

fun splitOn :: "char \<Rightarrow> string \<Rightarrow> string list" where
  "splitOn sep [] = [[]]"
| "splitOn sep (c # cs) =
     (if c = sep then [] # splitOn sep cs
      else (c # hd (splitOn sep cs)) # tl (splitOn sep cs))"

definition segments :: "string \<Rightarrow> string list" where
  "segments path =
     (let p = (if path \<noteq> [] \<and> hd path = CHR ''/'' then tl path else path)
      in rev (dropWhile (\<lambda>s. s = []) (rev (splitOn CHR ''/'' p))))"

text \<open>
  Modelled from the spec: \<open>getInode\<close> of \<open>FileIndex.ts\<close>, the non-throwing path
  resolution. It descends through the child mappings, segment by segment, and is
  absent when a segment is missing or when the descent would pass through a file.
\<close>

fun descend :: "IndexInode \<Rightarrow> string list \<Rightarrow> IndexInode option" where
  "descend n [] = Some n"
| "descend (IndexFileInode s) (x # xs) = None"
| "descend (IndexDirInode s ls) (x # xs) =
     (case map_of ls x of None \<Rightarrow> None | Some c \<Rightarrow> descend c xs)"

definition getInode :: "IndexInode \<Rightarrow> string \<Rightarrow> IndexInode option" where
  "getInode idx path = descend idx (segments path)"

text \<open>
  The source mutates the stat record of the node that \<open>getInode\<close> returned. In the
  model the record of the file node at the same path is replaced; every other node
  is kept.
\<close>

fun assign :: "Stats \<Rightarrow> IndexInode \<Rightarrow> string list \<Rightarrow> IndexInode" where
  "assign s' (IndexFileInode s) [] = IndexFileInode s'"
| "assign s' (IndexDirInode s ls) [] = IndexDirInode s ls"
| "assign s' (IndexFileInode s) (x # xs) = IndexFileInode s"
| "assign s' (IndexDirInode s ls) (x # xs) =
     (case map_of ls x of
        None \<Rightarrow> IndexDirInode s ls
      | Some c \<Rightarrow> IndexDirInode s (AList.update x (assign s' c xs) ls))"

definition setData :: "IndexInode \<Rightarrow> string \<Rightarrow> Stats \<Rightarrow> IndexInode" where
  "setData idx path s' = assign s' idx (segments path)"

text \<open>
  Modelled from the spec: \<open>files()\<close> of \<open>FileIndex.ts\<close>, every file node of the tree
  in depth-first order, here as the list of their stat records.
\<close>

fun files :: "IndexInode \<Rightarrow> Stats list" where
  "files (IndexFileInode s) = [s]"
| "files (IndexDirInode s ls) = concat (map (\<lambda>e. files (snd e)) ls)"

text \<open>
  Modelled from the spec: the stat records \<open>FromListing\<close> gives to new nodes. A file
  starts with the size \<open>-1\<close> (unknown, not yet fetched), read-only file bits and no
  cached bytes; a directory has a mode flagged as directory. The specification
  fixes neither the exact bits nor the size of a directory record; the values are
  the conventional ones (octal 555 with the file-type bit, 4096) and no property
  below depends on them.
\<close>

definition newFileStats :: Stats where
  "newFileStats = \<lparr>st_size = Num (- 1), st_mode = 32768 + 365, fileData = None\<rparr>"

definition newDirStats :: Stats where
  "newDirStats = \<lparr>st_size = Num 4096, st_mode = 16384 + 365, fileData = None\<rparr>"

text \<open>
  Modelled from the spec: \<open>FromListing\<close> rejects a listing in which a name contains
  the path separator.
\<close>

fun validNames :: "ListingTree \<Rightarrow> bool" where
  "validNames (Listing es) =
     list_all (\<lambda>e. CHR ''/'' \<notin> set (fst e) \<and>
        (case snd e of None \<Rightarrow> True | Some t \<Rightarrow> validNames t)) es"

text \<open>
  Modelled from the spec: \<open>FromListing\<close> walks the listing; a \<open>null\<close> entry becomes a
  file node, a nested mapping a directory node (an empty directory when the mapping
  is empty, as the class comment of \<open>FetchFS\<close> shows).
\<close>

fun buildNode :: "ListingTree option \<Rightarrow> IndexInode" where
  "buildNode None = IndexFileInode newFileStats"
| "buildNode (Some (Listing es)) =
     IndexDirInode newDirStats (map (\<lambda>e. (fst e, buildNode (snd e))) es)"

definition FromListing :: "ListingTree \<Rightarrow> error + IndexInode" where
  "FromListing t =
     (if validNames t then Inr (buildNode (Some t))
      else Inl (ApiError EINVAL ''Invalid listing''))"

section \<open>The lazy remote file system\<close>

text \<open>
  Collaborators from the generic file-system layer, reduced to what \<open>FetchFS\<close> asks
  of them: a credential, an open flag (\<open>isWriteable()\<close> and the access bits \<open>mode\<close>),
  and the handle \<open>NoSyncFile\<close>, which keeps the arguments it was built with; an
  absent content is an empty buffer.
\<close>

record Cred =
  uid :: nat
  gid :: nat
  euid :: nat
  egid :: nat

record FileFlag =
  isWriteable :: bool
  mode :: nat

record NoSyncFile =
  fd_path :: string
  fd_flag :: FileFlag
  fd_stats :: Stats
  buffer :: Uint8Array

definition new_NoSyncFile :: "string \<Rightarrow> FileFlag \<Rightarrow> Stats \<Rightarrow> Uint8Array option \<Rightarrow> NoSyncFile" where
  "new_NoSyncFile path flag stats contents =
     \<lparr>fd_path = path, fd_flag = flag, fd_stats = stats,
      buffer = (case contents of None \<Rightarrow> [] | Some b \<Rightarrow> b)\<rparr>"

definition R_OK :: nat where
  "R_OK = 4"

text \<open>
  The permission check \<open>inode.toStats().hasAccess(mode, cred)\<close> belongs to the generic
  layer; every operation that makes it takes it as the parameter \<open>acc\<close>.
\<close>

type_synonym access = "IndexInode \<Rightarrow> nat \<Rightarrow> Cred \<Rightarrow> bool"

text \<open>
  The promise \<open>_ready\<close>: the index request is in flight and will settle with the
  given outcome, or loading has finished, or it has failed.
\<close>

datatype ready_state = Pending fetch_outcome | Fulfilled | Rejected error

text \<open>
  The state of a \<open>FetchFS\<close>. \<open>fs_index\<close> is the field \<open>_index\<close>, which is \<open>undefined\<close>
  (\<open>None\<close>) until \<open>loadIndex\<close> assigns it; \<open>fs_ready\<close> is the field \<open>_ready\<close>.
\<close>

record FetchFS =
  prefixUrl :: string
  fs_index :: "IndexInode option"
  fs_ready :: ready_state

record FetchOptions =
  opt_index :: "(string + ListingTree) option"
  opt_baseUrl :: "string option"

text \<open>
  \<open>loadIndex\<close> is an async function. Called with a listing object it runs to its end
  at once and assigns \<open>_index\<close>; called with a URL it issues the request and suspends.
  \<open>loadIndex_start\<close> is the part that runs inside the constructor, \<open>loadIndex_resume\<close>
  the part that runs when the request has settled. An exception in either part
  rejects the promise.
\<close>

definition loadIndex_finish :: "ListingTree \<Rightarrow> IndexInode option \<times> ready_state" where
  "loadIndex_finish t =
     (case FromListing t of
        Inl e \<Rightarrow> (None, Rejected e)
      | Inr idx \<Rightarrow> (Some idx, Fulfilled))"

definition loadIndex_start ::
  "string + ListingTree \<Rightarrow> network \<Rightarrow> (IndexInode option \<times> ready_state) \<times> network" where
  "loadIndex_start index net =
     (case index of
        Inl url \<Rightarrow> (case fetch (GET, url) net of (out, net') \<Rightarrow> ((None, Pending out), net'))
      | Inr t \<Rightarrow> (loadIndex_finish t, net))"

definition loadIndex_resume :: "FetchFS \<Rightarrow> FetchFS" where
  "loadIndex_resume fs =
     (case fs_ready fs of
        Pending out \<Rightarrow>
          (case fetchFile_json_settled out of
             Inl e \<Rightarrow> fs\<lparr>fs_ready := Rejected e\<rparr>
           | Inr t \<Rightarrow>
               (case loadIndex_finish t of (i, r) \<Rightarrow> fs\<lparr>fs_index := i, fs_ready := r\<rparr>))
      | _ \<Rightarrow> fs)"

text \<open>The constructor: default the index, start loading, normalise the base URL.\<close>

definition constructor :: "FetchOptions \<Rightarrow> network \<Rightarrow> FetchFS \<times> network" where
  "constructor opts net =
     (let index = (case opt_index opts of
                     None \<Rightarrow> Inl ''index.json''
                   | Some (Inl url) \<Rightarrow> if url = [] then Inl ''index.json'' else Inl url
                   | Some (Inr t) \<Rightarrow> Inr t);
          baseUrl = (case opt_baseUrl opts of None \<Rightarrow> [] | Some b \<Rightarrow> b);
          baseUrl' = (if length baseUrl > 0 \<and> last baseUrl \<noteq> CHR ''/''
                      then baseUrl @ ''/'' else baseUrl)
      in case loadIndex_start index net of
           ((i, r), net') \<Rightarrow> (\<lparr>prefixUrl = baseUrl', fs_index = i, fs_ready = r\<rparr>, net'))"

text \<open>
  \<open>ready()\<close> awaits \<open>_ready\<close>: loading runs to its end, then the file system itself is
  returned, or the rejection is raised.
\<close>

definition ready :: "FetchFS \<Rightarrow> (error + FetchFS) \<times> FetchFS" where
  "ready fs =
     (let fs' = loadIndex_resume fs
      in case fs_ready fs' of
           Rejected e \<Rightarrow> (Inl e, fs')
         | _ \<Rightarrow> (Inr fs', fs'))"

definition getRemotePath :: "FetchFS \<Rightarrow> string \<Rightarrow> string" where
  "getRemotePath fs filePath =
     prefixUrl fs @ (if filePath \<noteq> [] \<and> hd filePath = CHR ''/'' then tl filePath else filePath)"

text \<open>
  \<open>empty()\<close>: the loop visits the nodes that \<open>files()\<close> yields, which are all the file
  nodes of the tree, and sets \<open>fileData\<close> of each to \<open>null\<close> in place. Nothing else is
  assigned.
\<close>

fun clearFiles :: "IndexInode \<Rightarrow> IndexInode" where
  "clearFiles (IndexFileInode s) = IndexFileInode (s\<lparr>fileData := None\<rparr>)"
| "clearFiles (IndexDirInode s ls) = IndexDirInode s (map (\<lambda>e. (fst e, clearFiles (snd e))) ls)"

definition empty :: "FetchFS \<Rightarrow> error + FetchFS" where
  "empty fs =
     (case fs_index fs of
        None \<Rightarrow> Inl TypeError
      | Some idx \<Rightarrow> Inr (fs\<lparr>fs_index := Some (clearFiles idx)\<rparr>))"

text \<open>
  \<open>preloadFile(path, buffer)\<close>, with the two checks in the order of the source: the
  type guard first, the test for an absent node second. After both checks the
  source reads \<open>inode.data\<close>; the directory branch of the inner case only makes the
  case complete, the guard has excluded it. There is no access to the network.
\<close>

definition preloadFile :: "FetchFS \<Rightarrow> string \<Rightarrow> Uint8Array \<Rightarrow> error + FetchFS" where
  "preloadFile fs path buf =
     (case fs_index fs of
        None \<Rightarrow> Inl TypeError
      | Some idx \<Rightarrow>
          (let inode = getInode idx path
           in if \<not> isIndexFileInode inode then Inl (ApiError EISDIR path)
              else (case inode of
                      None \<Rightarrow> Inl (ApiError ENOENT path)
                    | Some (IndexDirInode s ls) \<Rightarrow> Inl (ApiError EISDIR path)
                    | Some (IndexFileInode stats) \<Rightarrow>
                        Inr (fs\<lparr>fs_index := Some (setData idx path
                               (stats\<lparr>st_size := byteLength buf, fileData := Some buf\<rparr>))\<rparr>))))"

text \<open>
  \<open>stat(path, cred)\<close>, run from the call to its return with no other operation in
  between. The result is the stat record as it is when the call returns. The final
  \<open>EINVAL\<close> of the source is for a node that is neither a directory nor a file; the
  node type has no such value.
\<close>

definition stat ::
  "access \<Rightarrow> FetchFS \<Rightarrow> string \<Rightarrow> Cred \<Rightarrow> network \<Rightarrow> (error + Stats) \<times> FetchFS \<times> network" where
  "stat acc fs path cred net =
     (case fs_index fs of
        None \<Rightarrow> (Inl TypeError, fs, net)
      | Some idx \<Rightarrow>
          (case getInode idx path of
             None \<Rightarrow> (Inl (ApiError ENOENT path), fs, net)
           | Some inode \<Rightarrow>
               if \<not> acc inode R_OK cred then (Inl (ApiError EACCES path), fs, net)
               else (case inode of
                       IndexDirInode s ls \<Rightarrow> (Inr s, fs, net)
                     | IndexFileInode stats \<Rightarrow>
                         if lt_zero (st_size stats)
                         then (case fetchSize (getRemotePath fs path) net of
                                 (Inl e, net') \<Rightarrow> (Inl e, fs, net')
                               | (Inr n, net') \<Rightarrow>
                                   (let stats' = stats\<lparr>st_size := n\<rparr>
                                    in (Inr stats',
                                        fs\<lparr>fs_index := Some (setData idx path stats')\<rparr>, net')))
                         else (Inr stats, fs, net))))"

text \<open>
  \<open>openFile(path, flag, cred)\<close>, run from the call to its return with no other
  operation in between. The handle of a file carries a copy of the stat record
  (\<open>Stats.clone\<close>) and the cached bytes.
\<close>

definition openFile ::
  "access \<Rightarrow> FetchFS \<Rightarrow> string \<Rightarrow> FileFlag \<Rightarrow> Cred \<Rightarrow> network
     \<Rightarrow> (error + NoSyncFile) \<times> FetchFS \<times> network" where
  "openFile acc fs path flag cred net =
     (if isWriteable flag then (Inl (ApiError EPERM path), fs, net)
      else
        (case fs_index fs of
           None \<Rightarrow> (Inl TypeError, fs, net)
         | Some idx \<Rightarrow>
             (case getInode idx path of
                None \<Rightarrow> (Inl (ApiError ENOENT path), fs, net)
              | Some inode \<Rightarrow>
                  if \<not> acc inode (mode flag) cred then (Inl (ApiError EACCES path), fs, net)
                  else (case inode of
                          IndexDirInode s ls \<Rightarrow>
                            (Inr (new_NoSyncFile path flag s (fileData s)), fs, net)
                        | IndexFileInode stats \<Rightarrow>
                            (case fileData stats of
                               Some d \<Rightarrow> (Inr (new_NoSyncFile path flag stats (Some d)), fs, net)
                             | None \<Rightarrow>
                                 (case fetchFile_buffer (getRemotePath fs path) net of
                                    (Inl e, net') \<Rightarrow> (Inl e, fs, net')
                                  | (Inr d, net') \<Rightarrow>
                                      (let stats' = stats\<lparr>st_size := byteLength d, fileData := Some d\<rparr>
                                       in (Inr (new_NoSyncFile path flag stats' (Some d)),
                                           fs\<lparr>fs_index := Some (setData idx path stats')\<rparr>,
                                           net'))))))))"

text \<open>
  The two halves of \<open>stat\<close> and of \<open>openFile\<close>. Both suspend once, at
  \<open>await this._fetchSize(path)\<close> and at \<open>await this._fetchFile(path, 'buffer')\<close>,
  after the test of the node and before the assignment to it; other operations may
  run while they are suspended. The first half ends with the result of the call or
  with the request issued; the second half runs when the request has settled, in
  the state the file system has by then. It assigns to the stat record that the
  first half took from the node. The tree never loses a node, so that record is the
  one at the path; the other branch of the case only makes it complete.
\<close>

datatype 'a progress = Done "error + 'a" | Awaiting Stats fetch_outcome

definition stat_begin ::
  "access \<Rightarrow> FetchFS \<Rightarrow> string \<Rightarrow> Cred \<Rightarrow> network \<Rightarrow> Stats progress \<times> network" where
  "stat_begin acc fs path cred net =
     (case fs_index fs of
        None \<Rightarrow> (Done (Inl TypeError), net)
      | Some idx \<Rightarrow>
          (case getInode idx path of
             None \<Rightarrow> (Done (Inl (ApiError ENOENT path)), net)
           | Some inode \<Rightarrow>
               if \<not> acc inode R_OK cred then (Done (Inl (ApiError EACCES path)), net)
               else (case inode of
                       IndexDirInode s ls \<Rightarrow> (Done (Inr s), net)
                     | IndexFileInode stats \<Rightarrow>
                         if lt_zero (st_size stats)
                         then (case fetch (HEAD, getRemotePath fs path) net of
                                 (out, net') \<Rightarrow> (Awaiting stats out, net'))
                         else (Done (Inr stats), net))))"

definition currentStats :: "FetchFS \<Rightarrow> string \<Rightarrow> Stats \<Rightarrow> Stats" where
  "currentStats fs path taken =
     (case fs_index fs of
        None \<Rightarrow> taken
      | Some idx \<Rightarrow>
          (case getInode idx path of
             Some (IndexFileInode cur) \<Rightarrow> cur
           | _ \<Rightarrow> taken))"

definition assignStats :: "FetchFS \<Rightarrow> string \<Rightarrow> Stats \<Rightarrow> FetchFS" where
  "assignStats fs path s' =
     (case fs_index fs of
        None \<Rightarrow> fs
      | Some idx \<Rightarrow> fs\<lparr>fs_index := Some (setData idx path s')\<rparr>)"

definition stat_settle ::
  "FetchFS \<Rightarrow> string \<Rightarrow> Stats \<Rightarrow> fetch_outcome \<Rightarrow> (error + Stats) \<times> FetchFS" where
  "stat_settle fs path taken out =
     (case fetchSize_settled out of
        Inl e \<Rightarrow> (Inl e, fs)
      | Inr n \<Rightarrow>
          (let stats' = (currentStats fs path taken)\<lparr>st_size := n\<rparr>
           in (Inr stats', assignStats fs path stats')))"

definition openFile_begin ::
  "access \<Rightarrow> FetchFS \<Rightarrow> string \<Rightarrow> FileFlag \<Rightarrow> Cred \<Rightarrow> network
     \<Rightarrow> NoSyncFile progress \<times> network" where
  "openFile_begin acc fs path flag cred net =
     (if isWriteable flag then (Done (Inl (ApiError EPERM path)), net)
      else
        (case fs_index fs of
           None \<Rightarrow> (Done (Inl TypeError), net)
         | Some idx \<Rightarrow>
             (case getInode idx path of
                None \<Rightarrow> (Done (Inl (ApiError ENOENT path)), net)
              | Some inode \<Rightarrow>
                  if \<not> acc inode (mode flag) cred then (Done (Inl (ApiError EACCES path)), net)
                  else (case inode of
                          IndexDirInode s ls \<Rightarrow>
                            (Done (Inr (new_NoSyncFile path flag s (fileData s))), net)
                        | IndexFileInode stats \<Rightarrow>
                            (case fileData stats of
                               Some d \<Rightarrow> (Done (Inr (new_NoSyncFile path flag stats (Some d))), net)
                             | None \<Rightarrow>
                                 (case fetch (GET, getRemotePath fs path) net of
                                    (out, net') \<Rightarrow> (Awaiting stats out, net')))))))"

definition openFile_settle ::
  "FetchFS \<Rightarrow> string \<Rightarrow> FileFlag \<Rightarrow> Stats \<Rightarrow> fetch_outcome \<Rightarrow> (error + NoSyncFile) \<times> FetchFS" where
  "openFile_settle fs path flag taken out =
     (case fetchFile_buffer_settled out of
        Inl e \<Rightarrow> (Inl e, fs)
      | Inr d \<Rightarrow>
          (let stats' = (currentStats fs path taken)\<lparr>st_size := byteLength d, fileData := Some d\<rparr>
           in (Inr (new_NoSyncFile path flag stats' (Some d)), assignStats fs path stats')))"

text \<open>
  \<open>readFile(fname, flag, cred)\<close>: open, take the handle's buffer, close. Closing a
  \<open>NoSyncFile\<close> has no effect on the index or the network.
\<close>

definition readFile ::
  "access \<Rightarrow> FetchFS \<Rightarrow> string \<Rightarrow> FileFlag \<Rightarrow> Cred \<Rightarrow> network
     \<Rightarrow> (error + Uint8Array) \<times> FetchFS \<times> network" where
  "readFile acc fs fname flag cred net =
     (case openFile acc fs fname flag cred net of
        (Inl e, fs', net') \<Rightarrow> (Inl e, fs', net')
      | (Inr fd, fs', net') \<Rightarrow> (Inr (buffer fd), fs', net'))"

section \<open>Properties and scenarios\<close>

text \<open>The node a path resolves to in the current state, if any.\<close>

definition nodeAt :: "FetchFS \<Rightarrow> string \<Rightarrow> IndexInode option" where
  "nodeAt fs path = (case fs_index fs of None \<Rightarrow> None | Some idx \<Rightarrow> getInode idx path)"

text \<open>
  The cache invariant: a file node whose \<open>fileData\<close> is set has the length of those
  bytes as its size.
\<close>

definition cacheConsistent :: "Stats \<Rightarrow> bool" where
  "cacheConsistent s = (case fileData s of None \<Rightarrow> True | Some b \<Rightarrow> st_size s = byteLength b)"

definition indexInv :: "IndexInode \<Rightarrow> bool" where
  "indexInv idx = list_all cacheConsistent (files idx)"

definition fsInv :: "FetchFS \<Rightarrow> bool" where
  "fsInv fs = (case fs_index fs of None \<Rightarrow> True | Some idx \<Rightarrow> indexInv idx)"

text \<open>Two calls of \<open>stat\<close> in sequence; the result is that of the second call.\<close>

definition stat_twice ::
  "access \<Rightarrow> FetchFS \<Rightarrow> string \<Rightarrow> Cred \<Rightarrow> network \<Rightarrow> (error + Stats) \<times> FetchFS \<times> network" where
  "stat_twice acc fs path cred net =
     (case stat acc fs path cred net of (r, fs', net') \<Rightarrow> stat acc fs' path cred net')"

text \<open>
  The scenario of the specification: the listing
  \<open>{"a.txt": null, "dir": {"b.txt": null}}\<close> under the base URL \<open>https://x\<close>, a root
  credential, a check that grants every access, and servers that answer every
  request with status 200, the bytes of \<open>hi\<close> as body, the listing as JSON, and the
  given \<open>Content-Length\<close> header (or none).
\<close>

definition example_listing :: ListingTree where
  "example_listing = Listing [(''a.txt'', None), (''dir'', Some (Listing [(''b.txt'', None)]))]"

definition root_cred :: Cred where
  "root_cred = \<lparr>uid = 0, gid = 0, euid = 0, egid = 0\<rparr>"

definition grant_all :: access where
  "grant_all n m c = True"

definition read_flag :: FileFlag where
  "read_flag = \<lparr>isWriteable = False, mode = 4\<rparr>"

definition write_flag :: FileFlag where
  "write_flag = \<lparr>isWriteable = True, mode = 2\<rparr>"

definition example_response :: "string option \<Rightarrow> response" where
  "example_response len =
     \<lparr>ok = True, status = 200,
      headers = (\<lambda>h. if h = ''Content-Length'' then len else None),
      arrayBuffer = Inr [104, 105], json = Inr example_listing\<rparr>"

definition example_server :: "string option \<Rightarrow> request list \<Rightarrow> request \<Rightarrow> fetch_outcome" where
  "example_server len hist rq = Resolves (example_response len)"

definition example_net :: "string option \<Rightarrow> network" where
  "example_net len = \<lparr>server = example_server len, requests = []\<rparr>"

definition example_fs :: FetchFS where
  "example_fs =
     fst (constructor \<lparr>opt_index = Some (Inr example_listing), opt_baseUrl = Some ''https://x''\<rparr>
            (example_net None))"

definition pending_fs :: FetchFS where
  "pending_fs =
     fst (constructor \<lparr>opt_index = None, opt_baseUrl = Some ''https://x''\<rparr> (example_net None))"

definition opened_fs :: FetchFS where
  "opened_fs =
     fst (snd (openFile grant_all example_fs ''/a.txt'' read_flag root_cred (example_net None)))"

text \<open>
  The constructor of the later revision of the class, kept beside \<open>Fetch.ts\<close> in the
  sources (\<open>part_000\<close>). The index defaults to \<open>index.json\<close> only when it is not given;
  the base URL is normalised with \<open>baseUrl.at(-1) != '/'\<close>, and \<open>at(-1)\<close> of the empty
  string is \<open>undefined\<close>, which differs from the separator; then \<open>_initialize\<close> starts.
  With a listing object \<open>_initialize\<close> assigns \<open>_index\<close> at once, with a URL it issues
  the request and suspends. What the constructor of the superclass leaves in
  \<open>_index\<close> is the parameter \<open>base\<close>: the superclass is not among the sources.
\<close>

definition initialize_start ::
  "IndexInode option \<Rightarrow> string + ListingTree \<Rightarrow> network
     \<Rightarrow> (IndexInode option \<times> ready_state) \<times> network" where
  "initialize_start base index net =
     (case index of
        Inr t \<Rightarrow>
          (case FromListing t of
             Inl e \<Rightarrow> ((base, Rejected e), net)
           | Inr idx \<Rightarrow> ((Some idx, Fulfilled), net))
      | Inl url \<Rightarrow> (case fetch (GET, url) net of (out, net') \<Rightarrow> ((base, Pending out), net')))"

definition constructor_part_000 ::
  "IndexInode option \<Rightarrow> FetchOptions \<Rightarrow> network \<Rightarrow> FetchFS \<times> network" where
  "constructor_part_000 base opts net =
     (let index = (case opt_index opts of None \<Rightarrow> Inl ''index.json'' | Some i \<Rightarrow> i);
          baseUrl = (case opt_baseUrl opts of None \<Rightarrow> [] | Some b \<Rightarrow> b);
          baseUrl' = (if baseUrl = [] \<or> last baseUrl \<noteq> CHR ''/''
                      then baseUrl @ ''/'' else baseUrl)
      in case initialize_start base index net of
           ((i, r), net') \<Rightarrow> (\<lparr>prefixUrl = baseUrl', fs_index = i, fs_ready = r\<rparr>, net'))"

text \<open>
  An interleaving: \<open>stat\<close> of \<open>/a.txt\<close> is called on the scenario's file system and
  suspends; \<open>preloadFile\<close> stores three bytes in the same node; then the HEAD request
  of \<open>stat\<close> settles, with the given \<open>Content-Length\<close> header (or none).
\<close>

definition preloaded_fs :: FetchFS where
  "preloaded_fs =
     (case preloadFile example_fs ''/a.txt'' [1, 2, 3] of Inl e \<Rightarrow> example_fs | Inr fs' \<Rightarrow> fs')"

definition interleaved_fs :: "string option \<Rightarrow> FetchFS" where
  "interleaved_fs len =
     (case stat_begin grant_all example_fs ''/a.txt'' root_cred (example_net len) of
        (Done r, net') \<Rightarrow> preloaded_fs
      | (Awaiting taken out, net') \<Rightarrow> snd (stat_settle preloaded_fs ''/a.txt'' taken out))"

text \<open>
  Two trees that differ at most in the \<open>fileData\<close> of their file nodes: the same
  kinds of nodes under the same names in the same order, the same size and mode at
  every file node, the same stat record at every directory node.
\<close>

function sameButData :: "IndexInode \<Rightarrow> IndexInode \<Rightarrow> bool" where
  "sameButData (IndexFileInode s) (IndexFileInode s') =
     (st_size s = st_size s' \<and> st_mode s = st_mode s')"
| "sameButData (IndexDirInode s ls) (IndexDirInode s' ls') =
     (s = s' \<and> map fst ls = map fst ls' \<and>
      list_all (\<lambda>p. sameButData (snd (fst p)) (snd (snd p))) (zip ls ls'))"
| "sameButData (IndexFileInode s) (IndexDirInode s' ls') = False"
| "sameButData (IndexDirInode s ls) (IndexFileInode s') = False"
  by pat_completeness auto
termination
proof (relation "measure (\<lambda>p. size (fst p))")
  fix s :: Stats and ls s' ls' and x :: "(string \<times> IndexInode) \<times> (string \<times> IndexInode)"
  assume "x \<in> set (zip ls ls')"
  then have "fst x \<in> set ls"
    by (metis prod.collapse set_zip_leftD)
  then have "size (snd (fst x)) < size (IndexDirInode s ls)"
    by (induction ls) auto
  then show "((snd (fst x), snd (snd x)), (IndexDirInode s ls, IndexDirInode s' ls'))
      \<in> measure (\<lambda>p. size (fst p))"
    by simp
qed simp

section \<open>Lemmas about the index\<close>

lemma example_fs_eval:
  "example_fs = \<lparr>prefixUrl = ''https://x/'',
      fs_index = Some (IndexDirInode newDirStats
        [(''a.txt'', IndexFileInode newFileStats),
         (''dir'', IndexDirInode newDirStats [(''b.txt'', IndexFileInode newFileStats)])]),
      fs_ready = Fulfilled\<rparr>"
  by (simp add: example_fs_def constructor_def loadIndex_start_def loadIndex_finish_def
      FromListing_def example_listing_def)

lemma files_update_subset:
  "set (concat (map (\<lambda>e. files (snd e)) (AList.update x c ls)))
     \<subseteq> set (files c) \<union> set (concat (map (\<lambda>e. files (snd e)) ls))"
  by (induction ls) auto

lemma files_assign_subset: "set (files (assign s' n segs)) \<subseteq> insert s' (set (files n))"
proof (induction s' n segs rule: assign.induct)
  case (4 s' s ls x xs)
  show ?case
  proof (cases "map_of ls x")
    case None
    then show ?thesis by auto
  next
    case (Some c)
    have "(x, c) \<in> set ls" using Some by (rule map_of_SomeD)
    then have sub: "set (files c) \<subseteq> set (concat (map (\<lambda>e. files (snd e)) ls))"
      by force
    from 4 [OF Some] have "set (files (assign s' c xs)) \<subseteq> insert s' (set (files c))" .
    with sub files_update_subset [of x "assign s' c xs" ls] Some show ?thesis
      by auto
  qed
qed auto

lemma descend_assign:
  "descend (assign s' n segs) segs =
     (case descend n segs of
        Some (IndexFileInode s) \<Rightarrow> Some (IndexFileInode s')
      | r \<Rightarrow> r)"
proof (induction s' n segs rule: assign.induct)
  case (4 s' s ls x xs)
  then show ?case
    by (cases "map_of ls x") (simp_all add: update_conv')
qed simp_all

lemma map_of_map_snd:
  "map_of (map (\<lambda>e. (fst e, f (snd e))) ls) x = map_option f (map_of ls x)"
  by (induction ls) auto

lemma descend_clearFiles:
  "descend (clearFiles n) segs = map_option clearFiles (descend n segs)"
proof (induction n segs rule: descend.induct)
  case (3 s ls x xs)
  then show ?case
    by (cases "map_of ls x") (simp_all add: map_of_map_snd)
qed simp_all

lemma files_clearFiles:
  "files (clearFiles n) = map (\<lambda>s. s\<lparr>fileData := None\<rparr>) (files n)"
proof (induction n rule: files.induct)
  case (2 s ls)
  then show ?case
    by (simp add: map_concat comp_def cong: map_cong)
qed simp


lemma indexInv_assign:
  "indexInv n \<Longrightarrow> cacheConsistent s' \<Longrightarrow> indexInv (assign s' n segs)"
  using files_assign_subset [of s' n segs]
  by (auto simp: indexInv_def list_all_iff)

lemma indexInv_clearFiles: "indexInv (clearFiles n)"
  by (simp add: indexInv_def files_clearFiles list_all_iff cacheConsistent_def)

lemma indexInv_file:
  "indexInv n \<Longrightarrow> descend n segs = Some (IndexFileInode s) \<Longrightarrow> cacheConsistent s"
proof (induction n segs rule: descend.induct)
  case (1 n)
  then show ?case by (simp add: indexInv_def)
next
  case (2 s x xs)
  then show ?case by simp
next
  case (3 t ls x xs)
  from 3(3) obtain c where c: "map_of ls x = Some c" and d: "descend c xs = Some (IndexFileInode s)"
    by (auto split: option.splits)
  have "(x, c) \<in> set ls" using c by (rule map_of_SomeD)
  then have "set (files c) \<subseteq> set (files (IndexDirInode t ls))" by force
  with 3(2) have "indexInv c" by (auto simp: indexInv_def list_all_iff)
  with 3(1) [OF c] d show ?case by simp
qed

lemma nodeAt_setData:
  "fs_index fs = Some idx \<Longrightarrow> getInode idx path = Some (IndexFileInode s) \<Longrightarrow>
   nodeAt (fs\<lparr>fs_index := Some (setData idx path s')\<rparr>) path = Some (IndexFileInode s')"
  by (simp add: nodeAt_def getInode_def setData_def descend_assign)

lemma openFile_preserves: "fsInv fs \<Longrightarrow> fsInv (fst (snd (openFile acc fs path flag cred net)))"
  by (auto simp: openFile_def fsInv_def setData_def Let_def cacheConsistent_def
      intro!: indexInv_assign split: option.splits IndexInode.splits prod.splits sum.splits)

lemma stat_preserves: "fsInv fs \<Longrightarrow> fsInv (fst (snd (stat acc fs path cred net)))"
proof (cases "fs_index fs")
  case None
  then show ?thesis by (simp add: stat_def fsInv_def)
next
  case (Some idx)
  assume inv: "fsInv fs"
  then have iv: "indexInv idx" using Some by (simp add: fsInv_def)
  have unset: "fileData s = None"
    if "getInode idx path = Some (IndexFileInode s)" "lt_zero (st_size s)" for s
  proof -
    have "cacheConsistent s" using iv that(1) by (auto simp: getInode_def dest: indexInv_file)
    with that(2) show ?thesis
      by (cases "fileData s") (auto simp: cacheConsistent_def byteLength_def)
  qed
  show ?thesis
    using Some iv unset
    by (auto simp: stat_def fsInv_def setData_def Let_def cacheConsistent_def
        intro!: indexInv_assign split: option.splits IndexInode.splits prod.splits sum.splits)
qed

lemma preloadFile_preserves: "fsInv fs \<Longrightarrow> preloadFile fs path buf = Inr fs' \<Longrightarrow> fsInv fs'"
  by (auto simp: preloadFile_def fsInv_def setData_def Let_def cacheConsistent_def
      intro!: indexInv_assign split: option.splits IndexInode.splits if_splits)

lemma empty_preserves: "empty fs = Inr fs' \<Longrightarrow> fsInv fs'"
  by (auto simp: empty_def fsInv_def indexInv_clearFiles split: option.splits)

lemma getInode_a: "getInode (IndexDirInode newDirStats
        [(''a.txt'', IndexFileInode s),
         (''dir'', IndexDirInode newDirStats [(''b.txt'', IndexFileInode t)])]) ''/a.txt''
     = Some (IndexFileInode s)"
  by (simp add: getInode_def segments_def)

lemma setData_a: "setData (IndexDirInode newDirStats
        [(''a.txt'', IndexFileInode s),
         (''dir'', IndexDirInode newDirStats [(''b.txt'', IndexFileInode t)])]) ''/a.txt'' s'
     = IndexDirInode newDirStats
        [(''a.txt'', IndexFileInode s'),
         (''dir'', IndexDirInode newDirStats [(''b.txt'', IndexFileInode t)])]"
  by (simp add: setData_def segments_def)

lemma opened_fs_eval:
  "opened_fs = \<lparr>prefixUrl = ''https://x/'',
      fs_index = Some (IndexDirInode newDirStats
        [(''a.txt'', IndexFileInode (newFileStats\<lparr>st_size := Num 2, fileData := Some [104, 105]\<rparr>)),
         (''dir'', IndexDirInode newDirStats [(''b.txt'', IndexFileInode newFileStats)])]),
      fs_ready = Fulfilled\<rparr>"
  by (simp add: opened_fs_def openFile_def example_fs_eval getInode_a setData_a
      example_net_def example_server_def example_response_def grant_all_def read_flag_def
      fetchFile_buffer_def fetch_def fetchFile_buffer_settled_def fetchFile_check_def
      getRemotePath_def byteLength_def Let_def newFileStats_def new_NoSyncFile_def)

lemma sameButData_clearFiles: "sameButData n (clearFiles n)"
proof (induction n rule: clearFiles.induct)
  case (2 s ls)
  then show ?case
    by (auto simp: list_all_iff zip_map2 zip_same_conv_map comp_def)
qed simp

lemma getInode_clearFiles:
  "getInode (clearFiles idx) path = map_option clearFiles (getInode idx path)"
  by (simp add: getInode_def descend_clearFiles)

lemma open_a_eval:
  "openFile grant_all example_fs ''/a.txt'' read_flag root_cred (example_net None)
     = (Inr (new_NoSyncFile ''/a.txt'' read_flag
               (newFileStats\<lparr>st_size := Num 2, fileData := Some [104, 105]\<rparr>) (Some [104, 105])),
        opened_fs,
        \<lparr>server = example_server None, requests = [(GET, ''https://x/a.txt'')]\<rparr>)"
  by (simp add: opened_fs_eval openFile_def example_fs_eval getInode_a setData_a
      example_net_def example_server_def example_response_def grant_all_def read_flag_def
      fetchFile_buffer_def fetch_def fetchFile_buffer_settled_def fetchFile_check_def
      getRemotePath_def byteLength_def Let_def newFileStats_def new_NoSyncFile_def)

lemma nodeAt_a: "nodeAt example_fs ''/a.txt'' = Some (IndexFileInode newFileStats)"
  by (simp add: nodeAt_def example_fs_eval getInode_a)

lemma opened_index:
  "fs_index opened_fs = Some (IndexDirInode newDirStats
        [(''a.txt'', IndexFileInode (newFileStats\<lparr>st_size := Num 2, fileData := Some [104, 105]\<rparr>)),
         (''dir'', IndexDirInode newDirStats [(''b.txt'', IndexFileInode newFileStats)])])"
  by (simp add: opened_fs_eval)

lemma pending_eval:
  "constructor \<lparr>opt_index = None, opt_baseUrl = Some ''https://x''\<rparr> (example_net None)
    = (\<lparr>prefixUrl = ''https://x/'', fs_index = None,
        fs_ready = Pending (Resolves (example_response None))\<rparr>,
       \<lparr>server = example_server None, requests = [(GET, ''index.json'')]\<rparr>)"
  by (simp add: constructor_def loadIndex_start_def fetch_def example_net_def example_server_def)

lemma pending_fs_eval:
  "pending_fs = \<lparr>prefixUrl = ''https://x/'', fs_index = None,
        fs_ready = Pending (Resolves (example_response None))\<rparr>"
  by (simp add: pending_fs_def pending_eval)

lemma ready_pending_eval: "ready pending_fs = (Inr example_fs, example_fs)"
  by (simp add: ready_def pending_fs_eval loadIndex_resume_def fetchFile_json_settled_def
      fetchFile_check_def example_response_def loadIndex_finish_def FromListing_def
      example_listing_def example_fs_eval Let_def)

text \<open>The invariant holds of every index that \<open>FromListing\<close> builds.\<close>

lemma files_buildNode: "list_all (\<lambda>s. fileData s = None) (files (buildNode v))"
proof (induction v rule: buildNode.induct)
  case 1
  then show ?case by (simp add: newFileStats_def)
next
  case (2 es)
  then show ?case by (auto simp: list_all_iff)
qed

lemma indexInv_FromListing: "FromListing t = Inr idx \<Longrightarrow> indexInv idx"
  using files_buildNode [of "Some t"]
  by (auto simp: FromListing_def indexInv_def list_all_iff cacheConsistent_def split: if_splits)

lemma fsInv_loadIndex_finish:
  "loadIndex_finish t = (i, r) \<Longrightarrow> fsInv (fs\<lparr>fs_index := i, fs_ready := r\<rparr>)"
  by (auto simp: loadIndex_finish_def fsInv_def split: sum.splits dest: indexInv_FromListing)

lemma fsInv_constructor: "fsInv (fst (constructor opts net))"
proof -
  define index where "index = (case opt_index opts of
                     None \<Rightarrow> Inl ''index.json''
                   | Some (Inl url) \<Rightarrow> if url = [] then Inl ''index.json'' else Inl url
                   | Some (Inr t) \<Rightarrow> Inr t)"
  obtain i r net' where l: "loadIndex_start index net = ((i, r), net')"
    by (metis prod.collapse)
  have c: "fs_index (fst (constructor opts net)) = i"
    using l by (simp add: constructor_def Let_def index_def)
  have "i = None \<or> (\<exists>t. loadIndex_finish t = (i, r))"
    using l by (cases index) (auto simp: loadIndex_start_def split: prod.splits)
  then show ?thesis
  proof
    assume "i = None"
    with c show ?thesis by (simp add: fsInv_def)
  next
    assume "\<exists>t. loadIndex_finish t = (i, r)"
    then obtain t where "loadIndex_finish t = (i, r)" ..
    from fsInv_loadIndex_finish [OF this, of "fst (constructor opts net)"] c
    show ?thesis by (simp add: fsInv_def)
  qed
qed

lemma fsInv_loadIndex_resume: "fsInv fs \<Longrightarrow> fsInv (loadIndex_resume fs)"
proof (cases "fs_ready fs")
  case (Pending out)
  assume inv: "fsInv fs"
  show ?thesis
  proof (cases "fetchFile_json_settled out")
    case (Inl err)
    with Pending inv show ?thesis by (simp add: loadIndex_resume_def fsInv_def)
  next
    case (Inr t)
    obtain i r where fin: "loadIndex_finish t = (i, r)" by (metis prod.collapse)
    with Pending Inr have "loadIndex_resume fs = fs\<lparr>fs_index := i, fs_ready := r\<rparr>"
      by (simp add: loadIndex_resume_def)
    with fsInv_loadIndex_finish [OF fin] show ?thesis by simp
  qed
qed (simp_all add: loadIndex_resume_def)

text \<open>What \<open>fetchSize\<close> returns for a successful response, and for an absent header.\<close>

lemma fetchSize_ok:
  "server net (requests net) (HEAD, p) = Resolves r \<Longrightarrow> ok r \<Longrightarrow>
   fetchSize p net =
     (Inr (parseInt (headerOrDefault (headers r ''Content-Length''))),
      net\<lparr>requests := requests net @ [(HEAD, p)]\<rparr>)"
  by (simp add: fetchSize_def fetch_def)

lemma parseInt_absent: "parseInt (headerOrDefault None) = Num (- 1)"
  by (simp add: headerOrDefault_def parseInt_def StrWhiteSpaceChar_def isDigit_def digitsValue_def toNumber_def)

text \<open>\<open>preloadFile\<close> on a directory, on a file, and the error it never raises.\<close>

lemma preloadFile_dir:
  "nodeAt fs path = Some (IndexDirInode s ls) \<Longrightarrow> preloadFile fs path buf = Inl (ApiError EISDIR path)"
  by (auto simp: nodeAt_def preloadFile_def split: option.splits)

lemma preloadFile_file:
  "fs_index fs = Some idx \<Longrightarrow> getInode idx path = Some (IndexFileInode stats) \<Longrightarrow>
   preloadFile fs path buf =
     Inr (fs\<lparr>fs_index := Some (setData idx path
            (stats\<lparr>st_size := byteLength buf, fileData := Some buf\<rparr>))\<rparr>)"
  by (simp add: preloadFile_def)

lemma preloadFile_absent:
  "fs_index fs = Some idx \<Longrightarrow> getInode idx path = None \<Longrightarrow>
   preloadFile fs path buf = Inl (ApiError EISDIR path)"
  by (simp add: preloadFile_def)

lemma preloadFile_never_ENOENT: "preloadFile fs path buf \<noteq> Inl (ApiError ENOENT p)"
  by (auto simp: preloadFile_def Let_def split: option.splits IndexInode.splits)

text \<open>Readiness: what the constructor and the resumed \<open>loadIndex\<close> leave behind.\<close>

lemma loadIndex_finish_cases:
  "loadIndex_finish t = (i, r) \<Longrightarrow> (r = Fulfilled \<and> i \<noteq> None) \<or> (\<exists>e. r = Rejected e)"
  by (auto simp: loadIndex_finish_def split: sum.splits)

lemma loadIndex_start_state:
  "loadIndex_start index net = ((i, r), net') \<Longrightarrow> r = Fulfilled \<Longrightarrow> i \<noteq> None"
  by (cases index)
     (auto simp: loadIndex_start_def split: prod.splits dest: loadIndex_finish_cases)

lemma constructor_state:
  "fs_ready (fst (constructor opts net)) = Fulfilled \<Longrightarrow> fs_index (fst (constructor opts net)) \<noteq> None"
proof -
  assume f: "fs_ready (fst (constructor opts net)) = Fulfilled"
  define index where "index = (case opt_index opts of
                     None \<Rightarrow> Inl ''index.json''
                   | Some (Inl url) \<Rightarrow> if url = [] then Inl ''index.json'' else Inl url
                   | Some (Inr t) \<Rightarrow> Inr t)"
  obtain i r net' where l: "loadIndex_start index net = ((i, r), net')"
    by (metis prod.collapse)
  have c: "fs_ready (fst (constructor opts net)) = r" "fs_index (fst (constructor opts net)) = i"
    using l by (simp_all add: constructor_def Let_def index_def)
  from f c(1) have "r = Fulfilled" by simp
  with l have "i \<noteq> None" by (rule loadIndex_start_state)
  with c(2) show ?thesis by simp
qed

lemma loadIndex_resume_state:
  assumes "fs_ready fs = Fulfilled \<longrightarrow> fs_index fs \<noteq> None"
    and nr: "\<And>e. fs_ready (loadIndex_resume fs) \<noteq> Rejected e"
  shows "fs_index (loadIndex_resume fs) \<noteq> None \<and> fs_ready (loadIndex_resume fs) = Fulfilled"
proof (cases "fs_ready fs")
  case (Pending out)
  show ?thesis
  proof (cases "fetchFile_json_settled out")
    case (Inl err)
    with Pending have "fs_ready (loadIndex_resume fs) = Rejected err"
      by (simp add: loadIndex_resume_def)
    with nr [of err] show ?thesis by blast
  next
    case (Inr t)
    obtain i r where fin: "loadIndex_finish t = (i, r)" by (metis prod.collapse)
    with Pending Inr have res: "loadIndex_resume fs = fs\<lparr>fs_index := i, fs_ready := r\<rparr>"
      by (simp add: loadIndex_resume_def)
    from loadIndex_finish_cases [OF fin] nr [unfolded res] res show ?thesis by auto
  qed
next
  case Fulfilled
  with assms(1) show ?thesis by (simp add: loadIndex_resume_def)
next
  case (Rejected err)
  then have "fs_ready (loadIndex_resume fs) = Rejected err"
    by (simp add: loadIndex_resume_def)
  with nr [of err] show ?thesis by blast
qed

lemma ready_resolves:
  assumes "fst (ready fs) = Inr fs'"
  shows "fs' = loadIndex_resume fs \<and> snd (ready fs) = fs' \<and> (\<forall>e. fs_ready fs' \<noteq> Rejected e)"
  using assms by (cases "fs_ready (loadIndex_resume fs)") (auto simp: ready_def Let_def)

text \<open>
  The halves of \<open>stat\<close> and \<open>openFile\<close>: run one after the other they are the
  whole operation, and what their second halves do to the invariant.
\<close>

lemma fetchSize_halves:
  "fetchSize p net = (case fetch (HEAD, p) net of (out, net') \<Rightarrow> (fetchSize_settled out, net'))"
  by (simp add: fetchSize_def fetchSize_settled_def fetch_def split: fetch_outcome.splits)

lemma currentStats_file:
  "fs_index fs = Some idx \<Longrightarrow> getInode idx path = Some (IndexFileInode s) \<Longrightarrow>
   currentStats fs path taken = s"
  by (simp add: currentStats_def)

lemma stat_halves:
  "stat acc fs path cred net =
     (case stat_begin acc fs path cred net of
        (Done r, net') \<Rightarrow> (r, fs, net')
      | (Awaiting taken out, net') \<Rightarrow>
          (case stat_settle fs path taken out of (r, fs') \<Rightarrow> (r, fs', net')))"
proof (cases "fs_index fs")
  case None
  then show ?thesis by (simp add: stat_def stat_begin_def)
next
  case (Some idx)
  show ?thesis
  proof (cases "getInode idx path")
    case None
    with Some show ?thesis by (simp add: stat_def stat_begin_def)
  next
    case node: (Some inode)
    show ?thesis
    proof (cases inode)
      case (IndexDirInode s ls)
      with Some node show ?thesis by (simp add: stat_def stat_begin_def)
    next
      case (IndexFileInode stats)
      with Some node show ?thesis
        by (simp add: stat_def stat_begin_def stat_settle_def fetchSize_halves currentStats_def
            assignStats_def Let_def split: prod.splits sum.splits)
    qed
  qed
qed

lemma openFile_halves:
  "openFile acc fs path flag cred net =
     (case openFile_begin acc fs path flag cred net of
        (Done r, net') \<Rightarrow> (r, fs, net')
      | (Awaiting taken out, net') \<Rightarrow>
          (case openFile_settle fs path flag taken out of (r, fs') \<Rightarrow> (r, fs', net')))"
proof (cases "fs_index fs")
  case None
  then show ?thesis by (simp add: openFile_def openFile_begin_def)
next
  case (Some idx)
  show ?thesis
  proof (cases "getInode idx path")
    case None
    with Some show ?thesis by (simp add: openFile_def openFile_begin_def)
  next
    case node: (Some inode)
    show ?thesis
    proof (cases inode)
      case (IndexDirInode s ls)
      with Some node show ?thesis by (simp add: openFile_def openFile_begin_def)
    next
      case (IndexFileInode stats)
      with Some node show ?thesis
        by (cases "fileData stats")
           (simp_all add: openFile_def openFile_begin_def openFile_settle_def fetchFile_buffer_def
            currentStats_def assignStats_def Let_def split: prod.splits sum.splits)
    qed
  qed
qed

lemma fsInv_assignStats: "fsInv fs \<Longrightarrow> cacheConsistent s' \<Longrightarrow> fsInv (assignStats fs path s')"
  by (auto simp: fsInv_def assignStats_def setData_def intro: indexInv_assign split: option.splits)

lemma openFile_settle_preserves: "fsInv fs \<Longrightarrow> fsInv (snd (openFile_settle fs path flag taken out))"
  by (auto simp: openFile_settle_def Let_def cacheConsistent_def
      intro!: fsInv_assignStats split: sum.splits)

lemma stat_settle_preserves:
  "fsInv fs \<Longrightarrow> fileData (currentStats fs path taken) = None \<Longrightarrow>
   fsInv (snd (stat_settle fs path taken out))"
  by (auto simp: stat_settle_def Let_def cacheConsistent_def
      intro!: fsInv_assignStats split: sum.splits)

lemma fsInv_file:
  "fsInv fs \<Longrightarrow> nodeAt fs path = Some (IndexFileInode s) \<Longrightarrow> cacheConsistent s"
  by (auto simp: fsInv_def nodeAt_def getInode_def split: option.splits dest: indexInv_file)

lemma stat_settle_stale:
  assumes node: "nodeAt fs path = Some (IndexFileInode cur)"
    and cached: "fileData cur = Some b"
    and settled: "fetchSize_settled out = Inr n"
    and differs: "n \<noteq> byteLength b"
  shows "\<not> fsInv (snd (stat_settle fs path taken out))"
proof
  assume inv: "fsInv (snd (stat_settle fs path taken out))"
  from node obtain idx where idx: "fs_index fs = Some idx"
    and g: "getInode idx path = Some (IndexFileInode cur)"
    by (auto simp: nodeAt_def split: option.splits)
  have s: "snd (stat_settle fs path taken out)
      = fs\<lparr>fs_index := Some (setData idx path (cur\<lparr>st_size := n\<rparr>))\<rparr>"
    using idx g settled by (simp add: stat_settle_def currentStats_def assignStats_def Let_def)
  have "nodeAt (fs\<lparr>fs_index := Some (setData idx path (cur\<lparr>st_size := n\<rparr>))\<rparr>) path
      = Some (IndexFileInode (cur\<lparr>st_size := n\<rparr>))"
    using idx g by (rule nodeAt_setData)
  with inv s have "cacheConsistent (cur\<lparr>st_size := n\<rparr>)"
    by (auto dest: fsInv_file)
  with cached differs show False
    by (simp add: cacheConsistent_def)
qed

lemma preloaded_fs_eval:
  "preloaded_fs = \<lparr>prefixUrl = ''https://x/'',
      fs_index = Some (IndexDirInode newDirStats
        [(''a.txt'', IndexFileInode (newFileStats\<lparr>st_size := Num 3, fileData := Some [1, 2, 3]\<rparr>)),
         (''dir'', IndexDirInode newDirStats [(''b.txt'', IndexFileInode newFileStats)])]),
      fs_ready = Fulfilled\<rparr>"
  by (simp add: preloaded_fs_def preloadFile_def example_fs_eval getInode_a setData_a byteLength_def)

lemma stat_begin_a:
  "stat_begin grant_all example_fs ''/a.txt'' root_cred (example_net len)
     = (Awaiting newFileStats (Resolves (example_response len)),
        \<lparr>server = example_server len, requests = [(HEAD, ''https://x/a.txt'')]\<rparr>)"
  by (simp add: stat_begin_def example_fs_eval getInode_a grant_all_def newFileStats_def
      fetch_def getRemotePath_def example_net_def example_server_def)

lemma interleaved_fs_eval:
  "interleaved_fs None = \<lparr>prefixUrl = ''https://x/'',
      fs_index = Some (IndexDirInode newDirStats
        [(''a.txt'', IndexFileInode (newFileStats\<lparr>st_size := Num (- 1), fileData := Some [1, 2, 3]\<rparr>)),
         (''dir'', IndexDirInode newDirStats [(''b.txt'', IndexFileInode newFileStats)])]),
      fs_ready = Fulfilled\<rparr>"
  by (simp add: interleaved_fs_def stat_begin_a stat_settle_def fetchSize_settled_def
      example_response_def parseInt_absent preloaded_fs_eval currentStats_def assignStats_def
      getInode_a setData_a Let_def)

lemma fsInv_preloaded: "fsInv preloaded_fs"
  by (simp add: preloaded_fs_eval fsInv_def indexInv_def cacheConsistent_def byteLength_def
      newFileStats_def)

section \<open>The claims\<close>

text \<open>
  C10. As stated the claim fails on the constructor of the later revision
  (\<open>part_000\<close>): it appends the separator to the empty base URL as well, so the
  defaulted base URL gives the prefix \<open>/\<close>, not the empty prefix.
\<close>

theorem part_000_default_baseUrl_slash:
  "prefixUrl (fst (constructor_part_000 None \<lparr>opt_index = None, opt_baseUrl = None\<rparr>
       (example_net None))) = ''/''"
  by (simp add: constructor_part_000_def initialize_start_def fetch_def Let_def)

text \<open>
  C10, as amended. After construction \<open>prefixUrl\<close> ends in a separator whenever it
  is not empty; for a base URL that is not empty it is the base URL, with a
  separator appended when the base URL does not end in one. For the defaulted
  (empty) base URL it is empty after the constructor of \<open>Fetch.ts\<close> and is \<open>/\<close> after
  the constructor of the later revision.
\<close>

theorem prefixUrl_normalized:
  "(let b = (case opt_baseUrl opts of None \<Rightarrow> [] | Some b \<Rightarrow> b);
        p = prefixUrl (fst (constructor opts net));
        p' = prefixUrl (fst (constructor_part_000 base opts net'))
    in (p = [] \<or> last p = CHR ''/'')
     \<and> p' \<noteq> [] \<and> last p' = CHR ''/''
     \<and> p = (if b = [] then [] else if last b = CHR ''/'' then b else b @ ''/'')
     \<and> p' = (if b = [] then ''/'' else if last b = CHR ''/'' then b else b @ ''/''))"
  by (auto simp: constructor_def constructor_part_000_def Let_def
      split: prod.splits option.splits)

theorem prefixUrl_normalized_witness:
  "prefixUrl (fst (constructor \<lparr>opt_index = None, opt_baseUrl = Some ''https://x''\<rparr>
       (example_net None))) = ''https://x/''
   \<and> prefixUrl (fst (constructor_part_000 None \<lparr>opt_index = None, opt_baseUrl = Some ''https://x''\<rparr>
       (example_net None))) = ''https://x/''
   \<and> prefixUrl (fst (constructor \<lparr>opt_index = None, opt_baseUrl = None\<rparr>
       (example_net None))) = []"
  using prefixUrl_normalized [of "\<lparr>opt_index = None, opt_baseUrl = Some ''https://x''\<rparr>"
      "example_net None" None "example_net None"]
    prefixUrl_normalized [of "\<lparr>opt_index = None, opt_baseUrl = None\<rparr>" "example_net None"
      None "example_net None"]
  by (simp add: Let_def)

text \<open>
  C9. \<open>openFile\<close> with a flag that requests write access fails with \<open>EPERM\<close> for every
  path and every state of the index, before the path is resolved; the file system
  and the request log are unchanged.
\<close>

theorem openFile_write_EPERM:
  "isWriteable flag \<Longrightarrow>
   openFile acc fs path flag cred net = (Inl (ApiError EPERM path), fs, net)"
  by (simp add: openFile_def)

theorem openFile_write_EPERM_witness:
  "nodeAt example_fs ''/missing'' = None
   \<and> openFile grant_all example_fs ''/missing'' write_flag root_cred (example_net None)
       = (Inl (ApiError EPERM ''/missing''), example_fs, example_net None)"
proof -
  have w: "isWriteable write_flag" by (simp add: write_flag_def)
  have "nodeAt example_fs ''/missing'' = None"
    by (simp add: nodeAt_def example_fs_eval getInode_def segments_def)
  with openFile_write_EPERM [OF w] show ?thesis by simp
qed

text \<open>
  C3. As stated the claim fails when operations interleave: \<open>stat\<close> tests the size,
  suspends at its HEAD request and assigns the size when the request settles. A
  \<open>preloadFile\<close> on the same path that runs in between caches three bytes with size
  3; the HEAD response without \<open>Content-Length\<close> then sets the size to \<open>-1\<close> while the
  bytes stay cached.
\<close>

theorem stat_settles_after_preload_stale:
  "fsInv example_fs \<and> fsInv preloaded_fs \<and> \<not> fsInv (interleaved_fs None)
   \<and> nodeAt (interleaved_fs None) ''/a.txt''
       = Some (IndexFileInode (newFileStats\<lparr>st_size := Num (- 1), fileData := Some [1, 2, 3]\<rparr>))"
proof -
  have "fsInv example_fs"
    by (simp add: example_fs_eval fsInv_def indexInv_def cacheConsistent_def newFileStats_def)
  moreover have "\<not> fsInv (interleaved_fs None)"
    by (simp add: interleaved_fs_eval fsInv_def indexInv_def cacheConsistent_def byteLength_def
        newFileStats_def)
  moreover have "nodeAt (interleaved_fs None) ''/a.txt''
       = Some (IndexFileInode (newFileStats\<lparr>st_size := Num (- 1), fileData := Some [1, 2, 3]\<rparr>))"
    by (simp add: interleaved_fs_eval nodeAt_def getInode_a)
  ultimately show ?thesis
    using fsInv_preloaded by blast
qed

text \<open>
  C3, as amended. The cache invariant (a file node whose \<open>fileData\<close> is set has the
  length of those bytes as its size) is preserved by \<open>openFile\<close> and \<open>stat\<close> when they
  run from call to return with no other operation in between, by \<open>preloadFile\<close> and
  by \<open>empty\<close>, whatever their arguments and whatever the server answers. Under
  interleaving it is preserved by the assignment of \<open>openFile\<close> whenever its GET
  settles, and by the assignment of \<open>stat\<close> when the node has no cached bytes at the
  moment its HEAD settles; when the node has cached bytes by then and the HEAD
  result differs from their length, the assignment of \<open>stat\<close> breaks it. The invariant
  holds after construction and after the index has been loaded
  (\<open>fsInv_constructor\<close>, \<open>fsInv_loadIndex_resume\<close>); the halves make up the whole
  operations (\<open>stat_halves\<close>, \<open>openFile_halves\<close>).
\<close>

theorem cache_invariant_steps:
  assumes inv: "fsInv fs"
  shows "fsInv (fst (snd (openFile acc fs path flag cred net)))
       \<and> fsInv (fst (snd (stat acc fs path cred net)))
       \<and> (case preloadFile fs path buf of Inl e \<Rightarrow> True | Inr fs' \<Rightarrow> fsInv fs')
       \<and> (case empty fs of Inl e \<Rightarrow> True | Inr fs' \<Rightarrow> fsInv fs')
       \<and> fsInv (snd (openFile_settle fs path flag taken out))
       \<and> (fileData (currentStats fs path taken) = None \<longrightarrow>
            fsInv (snd (stat_settle fs path taken out)))
       \<and> (\<forall>cur b n. nodeAt fs path = Some (IndexFileInode cur) \<longrightarrow> fileData cur = Some b \<longrightarrow>
            fetchSize_settled out = Inr n \<longrightarrow> n \<noteq> byteLength b \<longrightarrow>
            \<not> fsInv (snd (stat_settle fs path taken out)))"
proof -
  have "case preloadFile fs path buf of Inl e \<Rightarrow> True | Inr fs' \<Rightarrow> fsInv fs'"
    using inv by (auto split: sum.splits dest: preloadFile_preserves)
  moreover have "case empty fs of Inl e \<Rightarrow> True | Inr fs' \<Rightarrow> fsInv fs'"
    by (auto split: sum.splits dest: empty_preserves)
  moreover have "fsInv (snd (openFile_settle fs path flag taken out))"
    using inv by (rule openFile_settle_preserves)
  moreover have "fileData (currentStats fs path taken) = None \<longrightarrow>
            fsInv (snd (stat_settle fs path taken out))"
    using inv by (simp add: stat_settle_preserves)
  moreover have "\<forall>cur b n. nodeAt fs path = Some (IndexFileInode cur) \<longrightarrow> fileData cur = Some b \<longrightarrow>
            fetchSize_settled out = Inr n \<longrightarrow> n \<noteq> byteLength b \<longrightarrow>
            \<not> fsInv (snd (stat_settle fs path taken out))"
    using stat_settle_stale by blast
  ultimately show ?thesis
    using inv by (simp add: openFile_preserves stat_preserves)
qed

theorem cache_invariant_steps_witness:
  "fsInv opened_fs
   \<and> fsInv (fst (snd (stat grant_all opened_fs ''/a.txt'' root_cred (example_net None))))
   \<and> fsInv (fst (snd (openFile grant_all opened_fs ''/dir/b.txt'' read_flag root_cred (example_net None))))
   \<and> fsInv (snd (openFile_settle opened_fs ''/a.txt'' read_flag newFileStats (Resolves (example_response None))))
   \<and> fsInv (snd (stat_settle opened_fs ''/dir/b.txt'' newFileStats (Resolves (example_response None))))
   \<and> \<not> fsInv (snd (stat_settle preloaded_fs ''/a.txt'' newFileStats (Resolves (example_response None))))"
proof -
  have h: "fsInv opened_fs"
    by (simp add: opened_fs_eval fsInv_def indexInv_def cacheConsistent_def byteLength_def
        newFileStats_def)
  have none: "fileData (currentStats opened_fs ''/dir/b.txt'' newFileStats) = None"
    by (simp add: currentStats_def opened_fs_eval getInode_def segments_def newFileStats_def)
  have node: "nodeAt preloaded_fs ''/a.txt''
      = Some (IndexFileInode (newFileStats\<lparr>st_size := Num 3, fileData := Some [1, 2, 3]\<rparr>))"
    by (simp add: nodeAt_def preloaded_fs_eval getInode_a)
  have cached: "fileData (newFileStats\<lparr>st_size := Num 3, fileData := Some [1, 2, 3]\<rparr>) = Some [1, 2, 3]"
    by simp
  have settled: "fetchSize_settled (Resolves (example_response None)) = Inr (Num (- 1))"
    by (simp add: fetchSize_settled_def example_response_def parseInt_absent)
  have differs: "Num (- 1) \<noteq> byteLength [1, 2, 3 :: 8 word]"
    by (simp add: byteLength_def)
  from cache_invariant_steps [OF h, of grant_all "''/a.txt''" read_flag root_cred "example_net None"
      "[]" newFileStats "Resolves (example_response None)"]
  have a: "fsInv (fst (snd (stat grant_all opened_fs ''/a.txt'' root_cred (example_net None))))"
    and b: "fsInv (snd (openFile_settle opened_fs ''/a.txt'' read_flag newFileStats (Resolves (example_response None))))"
    by simp_all
  from cache_invariant_steps [OF h, of grant_all "''/dir/b.txt''" read_flag root_cred "example_net None"
      "[]" newFileStats "Resolves (example_response None)"] none
  have c: "fsInv (fst (snd (openFile grant_all opened_fs ''/dir/b.txt'' read_flag root_cred (example_net None))))"
    and d: "fsInv (snd (stat_settle opened_fs ''/dir/b.txt'' newFileStats (Resolves (example_response None))))"
    by simp_all
  from cache_invariant_steps [OF fsInv_preloaded, of grant_all "''/a.txt''" read_flag root_cred
      "example_net None" "[]" newFileStats "Resolves (example_response None)"]
    node cached settled differs
  have e: "\<not> fsInv (snd (stat_settle preloaded_fs ''/a.txt'' newFileStats (Resolves (example_response None))))"
    by blast
  from h a b c d e show ?thesis by blast
qed

text \<open>
  C2. When \<open>openFile\<close> has fetched a file (it returned a handle and issued a
  request), it issued exactly one GET, for the remote path of the file; the handle's
  buffer, which is also what \<open>readFile\<close> returns, is the body of the response to that
  GET; and the next \<open>openFile\<close> on the path leaves the request log and the file
  system as they are and, when its flag is not writeable and the access check
  passes, returns a handle with the same bytes.
\<close>

theorem openFile_round_trip:
  assumes open1: "openFile acc fs path flag cred net = (Inr fd, fs1, net1)"
    and fetched: "requests net1 \<noteq> requests net"
  shows "requests net1 = requests net @ [(GET, getRemotePath fs path)]
       \<and> (\<exists>r. server net (requests net) (GET, getRemotePath fs path) = Resolves r
              \<and> ok r \<and> arrayBuffer r = Inr (buffer fd))
       \<and> readFile acc fs path flag cred net = (Inr (buffer fd), fs1, net1)
       \<and> snd (openFile acc fs1 path flag2 cred2 net1) = (fs1, net1)
       \<and> (\<not> isWriteable flag2 \<longrightarrow> acc (IndexFileInode (fd_stats fd)) (mode flag2) cred2 \<longrightarrow>
            (\<exists>fd2. openFile acc fs1 path flag2 cred2 net1 = (Inr fd2, fs1, net1)
                   \<and> buffer fd2 = buffer fd))"
proof -
  have nw: "\<not> isWriteable flag"
    using open1 by (auto simp: openFile_def)
  obtain idx where idx: "fs_index fs = Some idx"
    using open1 nw by (cases "fs_index fs") (auto simp: openFile_def)
  obtain inode where lookup: "getInode idx path = Some inode"
    using open1 nw idx by (cases "getInode idx path") (auto simp: openFile_def)
  have ac: "acc inode (mode flag) cred"
    using open1 nw idx lookup by (auto simp: openFile_def split: if_splits)
  obtain stats where isfile: "inode = IndexFileInode stats"
    using open1 fetched nw idx lookup ac by (cases inode) (auto simp: openFile_def)
  have node: "getInode idx path = Some (IndexFileInode stats)"
    using lookup isfile by simp
  have uncached: "fileData stats = None"
    using open1 fetched nw idx node ac isfile by (cases "fileData stats") (auto simp: openFile_def)
  let ?url = "getRemotePath fs path"
  obtain res net' where f: "fetchFile_buffer ?url net = (res, net')"
    by (cases "fetchFile_buffer ?url net")
  have unfolded: "openFile acc fs path flag cred net =
      (case res of
         Inl e \<Rightarrow> (Inl e, fs, net')
       | Inr d \<Rightarrow>
           (Inr (new_NoSyncFile path flag (stats\<lparr>st_size := byteLength d, fileData := Some d\<rparr>) (Some d)),
            fs\<lparr>fs_index := Some (setData idx path (stats\<lparr>st_size := byteLength d, fileData := Some d\<rparr>))\<rparr>,
            net'))"
    using nw idx node ac isfile uncached f by (cases res) (simp_all add: openFile_def Let_def)
  obtain d where
    got: "fetchFile_buffer ?url net = (Inr d, net1)" and
    fs1: "fs1 = fs\<lparr>fs_index := Some (setData idx path (stats\<lparr>st_size := byteLength d, fileData := Some d\<rparr>))\<rparr>" and
    fd: "fd = new_NoSyncFile path flag (stats\<lparr>st_size := byteLength d, fileData := Some d\<rparr>) (Some d)"
    using open1 unfolded f by (cases res) auto
  have buf: "buffer fd = d" and st: "fd_stats fd = stats\<lparr>st_size := byteLength d, fileData := Some d\<rparr>"
    using fd by (simp_all add: new_NoSyncFile_def)
  from got have log: "requests net1 = requests net @ [(GET, getRemotePath fs path)]"
    by (auto simp: fetchFile_buffer_def fetch_def)
  from got have body: "\<exists>r. server net (requests net) (GET, getRemotePath fs path) = Resolves r
              \<and> ok r \<and> arrayBuffer r = Inr d"
    by (auto simp: fetchFile_buffer_def fetch_def fetchFile_buffer_settled_def fetchFile_check_def
        split: fetch_outcome.splits if_splits sum.splits)
  have rd: "readFile acc fs path flag cred net = (Inr (buffer fd), fs1, net1)"
    using open1 by (simp add: readFile_def)
  have node1: "nodeAt fs1 path = Some (IndexFileInode (fd_stats fd))"
    unfolding fs1 st using idx node by (rule nodeAt_setData)
  then obtain idx1 where idx1: "fs_index fs1 = Some idx1"
    and g1: "getInode idx1 path = Some (IndexFileInode (fd_stats fd))"
    by (auto simp: nodeAt_def split: option.splits)
  have cached: "fileData (fd_stats fd) = Some d" using st by simp
  have again: "snd (openFile acc fs1 path flag2 cred2 net1) = (fs1, net1)"
    using idx1 g1 cached by (simp add: openFile_def)
  have same: "\<exists>fd2. openFile acc fs1 path flag2 cred2 net1 = (Inr fd2, fs1, net1) \<and> buffer fd2 = buffer fd"
    if "\<not> isWriteable flag2" "acc (IndexFileInode (fd_stats fd)) (mode flag2) cred2"
    using that idx1 g1 cached buf by (simp add: openFile_def new_NoSyncFile_def)
  from log body rd again same buf show ?thesis by simp
qed

theorem openFile_round_trip_witness:
  "\<exists>fd net1.
      openFile grant_all example_fs ''/a.txt'' read_flag root_cred (example_net None)
        = (Inr fd, opened_fs, net1)
    \<and> buffer fd = [104, 105]
    \<and> requests net1 = [(GET, ''https://x/a.txt'')]
    \<and> readFile grant_all example_fs ''/a.txt'' read_flag root_cred (example_net None)
        = (Inr [104, 105], opened_fs, net1)
    \<and> (\<exists>fd2. openFile grant_all opened_fs ''/a.txt'' read_flag root_cred net1
                = (Inr fd2, opened_fs, net1) \<and> buffer fd2 = [104, 105])"
proof -
  let ?fd = "new_NoSyncFile ''/a.txt'' read_flag
               (newFileStats\<lparr>st_size := Num 2, fileData := Some [104, 105]\<rparr>) (Some [104, 105])"
  let ?net1 = "\<lparr>server = example_server None, requests = [(GET, ''https://x/a.txt'')]\<rparr>"
  have fetched: "requests ?net1 \<noteq> requests (example_net None)"
    by (simp add: example_net_def)
  have nw: "\<not> isWriteable read_flag" by (simp add: read_flag_def)
  have ac: "grant_all (IndexFileInode (fd_stats ?fd)) (mode read_flag) root_cred"
    by (simp add: grant_all_def)
  have b: "buffer ?fd = [104, 105]" by (simp add: new_NoSyncFile_def)
  from openFile_round_trip [OF open_a_eval fetched, of read_flag root_cred] nw ac b open_a_eval
  show ?thesis
    by (simp add: example_net_def getRemotePath_def example_fs_eval)
qed

text \<open>
  C7. For a path that resolves to a file node, \<open>preloadFile\<close> followed by \<open>openFile\<close>
  with a flag that is not writeable (the access check passing) returns a handle
  whose buffer is the preloaded bytes; \<open>preloadFile\<close> has no access to the network,
  and \<open>openFile\<close> leaves the request log as it was.
\<close>

theorem preload_then_open:
  assumes node: "nodeAt fs path = Some (IndexFileInode stats)"
    and nw: "\<not> isWriteable flag"
    and ac: "acc (IndexFileInode (stats\<lparr>st_size := byteLength bytes, fileData := Some bytes\<rparr>)) (mode flag) cred"
  shows "\<exists>fs1 fd. preloadFile fs path bytes = Inr fs1
           \<and> openFile acc fs1 path flag cred net = (Inr fd, fs1, net)
           \<and> buffer fd = bytes"
proof -
  from node obtain idx where idx: "fs_index fs = Some idx"
    and g: "getInode idx path = Some (IndexFileInode stats)"
    by (auto simp: nodeAt_def split: option.splits)
  let ?s = "stats\<lparr>st_size := byteLength bytes, fileData := Some bytes\<rparr>"
  let ?fs1 = "fs\<lparr>fs_index := Some (setData idx path ?s)\<rparr>"
  have pre: "preloadFile fs path bytes = Inr ?fs1"
    using idx g by (simp add: preloadFile_def)
  have "nodeAt ?fs1 path = Some (IndexFileInode ?s)"
    using idx g by (rule nodeAt_setData)
  then have g1: "getInode (setData idx path ?s) path = Some (IndexFileInode ?s)"
    by (simp add: nodeAt_def)
  have "openFile acc ?fs1 path flag cred net
          = (Inr (new_NoSyncFile path flag ?s (Some bytes)), ?fs1, net)"
    using nw ac g1 by (simp add: openFile_def)
  with pre show ?thesis by (simp add: new_NoSyncFile_def)
qed

theorem preload_then_open_witness:
  "\<exists>fs1 fd. preloadFile example_fs ''/a.txt'' [1, 2, 3] = Inr fs1
     \<and> openFile grant_all fs1 ''/a.txt'' read_flag root_cred (example_net None)
          = (Inr fd, fs1, example_net None)
     \<and> buffer fd = [1, 2, 3]"
proof -
  have nw: "\<not> isWriteable read_flag" by (simp add: read_flag_def)
  have ac: "grant_all (IndexFileInode (newFileStats\<lparr>st_size := byteLength [1, 2, 3],
               fileData := Some [1, 2, 3]\<rparr>)) (mode read_flag) root_cred"
    by (simp add: grant_all_def)
  show ?thesis
    using preload_then_open [of example_fs "''/a.txt''" newFileStats read_flag grant_all
        "[1, 2, 3]" root_cred "example_net None", OF nodeAt_a nw ac] .
qed

text \<open>
  C8. \<open>empty\<close> leaves a tree in which every file node has no \<open>fileData\<close> and which
  is otherwise the tree it started from (sizes, modes, directory nodes, names and
  order); the next \<open>openFile\<close> on any file of the tree, with read intent and access
  granted, issues exactly one GET, for the remote path of that file.
\<close>

theorem empty_clears_cache_only:
  assumes idx: "fs_index fs = Some idx"
  shows "\<exists>idx'. empty fs = Inr (fs\<lparr>fs_index := Some idx'\<rparr>)
      \<and> list_all (\<lambda>s. fileData s = None) (files idx')
      \<and> sameButData idx idx'
      \<and> (\<forall>path stats flag cred net.
            getInode idx path = Some (IndexFileInode stats) \<longrightarrow>
            \<not> isWriteable flag \<longrightarrow>
            acc (IndexFileInode (stats\<lparr>fileData := None\<rparr>)) (mode flag) cred \<longrightarrow>
            requests (snd (snd (openFile acc (fs\<lparr>fs_index := Some idx'\<rparr>) path flag cred net)))
              = requests net @ [(GET, getRemotePath fs path)])"
proof -
  have e: "empty fs = Inr (fs\<lparr>fs_index := Some (clearFiles idx)\<rparr>)"
    using idx by (simp add: empty_def)
  have cleared: "list_all (\<lambda>s. fileData s = None) (files (clearFiles idx))"
    by (simp add: files_clearFiles list_all_iff)
  have reopen: "requests (snd (snd (openFile acc (fs\<lparr>fs_index := Some (clearFiles idx)\<rparr>) path flag cred net)))
              = requests net @ [(GET, getRemotePath fs path)]"
    if "getInode idx path = Some (IndexFileInode stats)" "\<not> isWriteable flag"
      "acc (IndexFileInode (stats\<lparr>fileData := None\<rparr>)) (mode flag) cred"
    for path stats flag cred net
    using that
    by (simp add: openFile_def getInode_clearFiles getRemotePath_def fetchFile_buffer_def
        fetch_def Let_def split: sum.splits)
  from e cleared sameButData_clearFiles [of idx] reopen show ?thesis
    by blast
qed

theorem empty_clears_cache_only_witness:
  "\<exists>idx'. empty opened_fs = Inr (opened_fs\<lparr>fs_index := Some idx'\<rparr>)
     \<and> files idx' = [newFileStats\<lparr>st_size := Num 2\<rparr>, newFileStats]
     \<and> requests (snd (snd (openFile grant_all (opened_fs\<lparr>fs_index := Some idx'\<rparr>) ''/a.txt''
                              read_flag root_cred (example_net None))))
          = [(GET, ''https://x/a.txt'')]"
proof -
  let ?idx = "IndexDirInode newDirStats
        [(''a.txt'', IndexFileInode (newFileStats\<lparr>st_size := Num 2, fileData := Some [104, 105]\<rparr>)),
         (''dir'', IndexDirInode newDirStats [(''b.txt'', IndexFileInode newFileStats)])]"
  have nw: "\<not> isWriteable read_flag" by (simp add: read_flag_def)
  have g: "getInode ?idx ''/a.txt''
            = Some (IndexFileInode (newFileStats\<lparr>st_size := Num 2, fileData := Some [104, 105]\<rparr>))"
    by (rule getInode_a)
  have ac: "grant_all (IndexFileInode (newFileStats\<lparr>st_size := Num 2, fileData := Some [104, 105]\<rparr>
              \<lparr>fileData := None\<rparr>)) (mode read_flag) root_cred"
    by (simp add: grant_all_def)
  from empty_clears_cache_only [OF opened_index, of grant_all] obtain idx' where
    e: "empty opened_fs = Inr (opened_fs\<lparr>fs_index := Some idx'\<rparr>)" and
    r: "\<forall>path stats flag cred net.
            getInode ?idx path = Some (IndexFileInode stats) \<longrightarrow>
            \<not> isWriteable flag \<longrightarrow>
            grant_all (IndexFileInode (stats\<lparr>fileData := None\<rparr>)) (mode flag) cred \<longrightarrow>
            requests (snd (snd (openFile grant_all (opened_fs\<lparr>fs_index := Some idx'\<rparr>) path flag cred net)))
              = requests net @ [(GET, getRemotePath opened_fs path)]"
    by blast
  have "map_sum id fs_index (empty opened_fs) = Inr (Some (clearFiles ?idx))"
    by (simp add: empty_def opened_index)
  with e have i: "idx' = clearFiles ?idx"
    by simp
  have f: "files idx' = [newFileStats\<lparr>st_size := Num 2\<rparr>, newFileStats]"
    unfolding i by (simp add: newFileStats_def)
  from r g nw ac have "requests (snd (snd (openFile grant_all (opened_fs\<lparr>fs_index := Some idx'\<rparr>)
        ''/a.txt'' read_flag root_cred (example_net None))))
      = requests (example_net None) @ [(GET, getRemotePath opened_fs ''/a.txt'')]"
    by blast
  with e f show ?thesis
    by (simp add: example_net_def getRemotePath_def opened_fs_eval)
qed

text \<open>
  C4. As stated the claim fails when the response to HEAD carries no
  \<open>Content-Length\<close>: \<open>fetchSize\<close> then returns \<open>-1\<close>, the size of the node stays
  negative, and the second \<open>stat\<close> issues HEAD again.
\<close>

theorem stat_twice_absent_two_HEAD:
  "nodeAt example_fs ''/a.txt'' = Some (IndexFileInode newFileStats)
   \<and> st_size newFileStats = Num (- 1)
   \<and> headers (example_response None) ''Content-Length'' = None
   \<and> requests (snd (snd (stat_twice grant_all example_fs ''/a.txt'' root_cred (example_net None))))
       = [(HEAD, ''https://x/a.txt''), (HEAD, ''https://x/a.txt'')]"
proof -
  have "requests (snd (snd (stat_twice grant_all example_fs ''/a.txt'' root_cred (example_net None))))
       = [(HEAD, ''https://x/a.txt''), (HEAD, ''https://x/a.txt'')]"
    by (simp add: stat_twice_def stat_def example_fs_eval getInode_a setData_a
      example_net_def example_server_def example_response_def grant_all_def
      fetchSize_def fetch_def headerOrDefault_def parseInt_def StrWhiteSpaceChar_def isDigit_def
      digitsValue_def toNumber_def getRemotePath_def Let_def newFileStats_def)
  moreover have "st_size newFileStats = Num (- 1)"
    by (simp add: newFileStats_def)
  moreover have "headers (example_response None) ''Content-Length'' = None"
    by (simp add: example_response_def)
  ultimately show ?thesis
    using nodeAt_a by blast
qed

text \<open>
  C4, as amended. For a file node of unknown size whose first HEAD request
  succeeds: when \<open>Content-Length\<close> parses to a number that is not negative, that
  number is stored in the node, the first \<open>stat\<close> issues exactly one HEAD request and
  the second returns the same record and issues none; when the response carries no
  \<open>Content-Length\<close>, the size stays \<open>-1\<close> and the second \<open>stat\<close> issues HEAD again.
\<close>

theorem stat_twice_HEAD_requests:
  assumes node: "nodeAt fs path = Some (IndexFileInode stats)"
    and unknown: "lt_zero (st_size stats)"
    and resp: "server net (requests net) (HEAD, getRemotePath fs path) = Resolves r"
    and success: "ok r"
    and ac1: "acc (IndexFileInode stats) R_OK cred"
    and ac2: "acc (IndexFileInode
                (stats\<lparr>st_size := parseInt (headerOrDefault (headers r ''Content-Length''))\<rparr>)) R_OK cred"
  shows "(parseInt (headerOrDefault (headers r ''Content-Length'')) \<noteq> NaN \<longrightarrow>
          \<not> lt_zero (parseInt (headerOrDefault (headers r ''Content-Length''))) \<longrightarrow>
          (\<exists>fs1 net1.
              stat acc fs path cred net
                = (Inr (stats\<lparr>st_size := parseInt (headerOrDefault (headers r ''Content-Length''))\<rparr>),
                   fs1, net1)
            \<and> requests net1 = requests net @ [(HEAD, getRemotePath fs path)]
            \<and> stat acc fs1 path cred net1
                = (Inr (stats\<lparr>st_size := parseInt (headerOrDefault (headers r ''Content-Length''))\<rparr>),
                   fs1, net1)
            \<and> stat_twice acc fs path cred net
                = (Inr (stats\<lparr>st_size := parseInt (headerOrDefault (headers r ''Content-Length''))\<rparr>),
                   fs1, net1)))
       \<and> (headers r ''Content-Length'' = None \<longrightarrow>
          (\<exists>fs1 net1.
              stat acc fs path cred net = (Inr (stats\<lparr>st_size := Num (- 1)\<rparr>), fs1, net1)
            \<and> requests net1 = requests net @ [(HEAD, getRemotePath fs path)]
            \<and> nodeAt fs1 path = Some (IndexFileInode (stats\<lparr>st_size := Num (- 1)\<rparr>))
            \<and> requests (snd (snd (stat acc fs1 path cred net1)))
                = requests net @ [(HEAD, getRemotePath fs path), (HEAD, getRemotePath fs path)]
            \<and> requests (snd (snd (stat_twice acc fs path cred net)))
                = requests net @ [(HEAD, getRemotePath fs path), (HEAD, getRemotePath fs path)]))"
proof -
  from node obtain idx where idx: "fs_index fs = Some idx"
    and g: "getInode idx path = Some (IndexFileInode stats)"
    by (auto simp: nodeAt_def split: option.splits)
  let ?url = "getRemotePath fs path"
  let ?sz = "parseInt (headerOrDefault (headers r ''Content-Length''))"
  let ?s = "stats\<lparr>st_size := ?sz\<rparr>"
  let ?fs1 = "fs\<lparr>fs_index := Some (setData idx path ?s)\<rparr>"
  let ?net1 = "net\<lparr>requests := requests net @ [(HEAD, ?url)]\<rparr>"
  have size: "fetchSize ?url net = (Inr ?sz, ?net1)"
    using resp success by (rule fetchSize_ok)
  have first: "stat acc fs path cred net = (Inr ?s, ?fs1, ?net1)"
    using idx g ac1 unknown size by (simp add: stat_def Let_def)
  have n1: "nodeAt ?fs1 path = Some (IndexFileInode ?s)"
    using idx g by (rule nodeAt_setData)
  then have g1: "getInode (setData idx path ?s) path = Some (IndexFileInode ?s)"
    by (simp add: nodeAt_def)
  have url1: "getRemotePath ?fs1 path = ?url"
    by (simp add: getRemotePath_def)
  have cachedsize: "stat acc ?fs1 path cred ?net1 = (Inr ?s, ?fs1, ?net1)" if "\<not> lt_zero ?sz"
    using g1 ac2 that by (simp add: stat_def)
  have again: "requests (snd (snd (stat acc ?fs1 path cred ?net1)))
      = requests net @ [(HEAD, ?url), (HEAD, ?url)]" if "lt_zero ?sz"
    using g1 ac2 that url1
    by (simp add: stat_def fetchSize_halves fetch_def Let_def split: sum.splits)
  have absent: "?sz = Num (- 1)" if "headers r ''Content-Length'' = None"
    using that by (simp add: parseInt_absent)
  have one: "\<exists>fs1 net1.
              stat acc fs path cred net = (Inr ?s, fs1, net1)
            \<and> requests net1 = requests net @ [(HEAD, ?url)]
            \<and> stat acc fs1 path cred net1 = (Inr ?s, fs1, net1)
            \<and> stat_twice acc fs path cred net = (Inr ?s, fs1, net1)"
    if "\<not> lt_zero ?sz"
    using first cachedsize [OF that] by (simp add: stat_twice_def)
  have two: "\<exists>fs1 net1.
              stat acc fs path cred net = (Inr (stats\<lparr>st_size := Num (- 1)\<rparr>), fs1, net1)
            \<and> requests net1 = requests net @ [(HEAD, ?url)]
            \<and> nodeAt fs1 path = Some (IndexFileInode (stats\<lparr>st_size := Num (- 1)\<rparr>))
            \<and> requests (snd (snd (stat acc fs1 path cred net1)))
                = requests net @ [(HEAD, ?url), (HEAD, ?url)]
            \<and> requests (snd (snd (stat_twice acc fs path cred net)))
                = requests net @ [(HEAD, ?url), (HEAD, ?url)]"
    if h: "headers r ''Content-Length'' = None"
  proof -
    have neg: "lt_zero ?sz" using absent [OF h] by simp
    from first again [OF neg] n1 absent [OF h] show ?thesis
      by (simp add: stat_twice_def)
  qed
  from one two show ?thesis by blast
qed

theorem stat_twice_HEAD_requests_witness:
  "(\<exists>fs1. stat_twice grant_all example_fs ''/a.txt'' root_cred (example_net (Some ''2''))
       = (Inr (newFileStats\<lparr>st_size := Num 2\<rparr>), fs1,
          example_net (Some ''2'')\<lparr>requests := [(HEAD, ''https://x/a.txt'')]\<rparr>))
   \<and> requests (snd (snd (stat_twice grant_all example_fs ''/a.txt'' root_cred (example_net None))))
       = [(HEAD, ''https://x/a.txt''), (HEAD, ''https://x/a.txt'')]"
proof -
  have unknown: "lt_zero (st_size newFileStats)"
    by (simp add: newFileStats_def)
  have url: "getRemotePath example_fs ''/a.txt'' = ''https://x/a.txt''"
    by (simp add: getRemotePath_def example_fs_eval)
  have resp: "server (example_net len) (requests (example_net len))
      (HEAD, getRemotePath example_fs ''/a.txt'') = Resolves (example_response len)" for len
    by (simp add: example_net_def example_server_def)
  have success: "ok (example_response len)" for len
    by (simp add: example_response_def)
  have len2: "parseInt (headerOrDefault (headers (example_response (Some ''2'')) ''Content-Length''))
      = Num 2"
    by (simp add: example_response_def headerOrDefault_def parseInt_def StrWhiteSpaceChar_def
        isDigit_def digitsValue_def toNumber_def)
  have none: "headers (example_response None) ''Content-Length'' = None"
    by (simp add: example_response_def)
  have ac: "grant_all n R_OK root_cred" for n
    by (simp add: grant_all_def)
  from stat_twice_HEAD_requests [of example_fs "''/a.txt''" newFileStats "example_net (Some ''2'')"
      "example_response (Some ''2'')" grant_all root_cred, OF nodeAt_a unknown resp success ac ac]
  obtain fs1 net1 where
    t: "stat_twice grant_all example_fs ''/a.txt'' root_cred (example_net (Some ''2''))
          = (Inr (newFileStats\<lparr>st_size := Num 2\<rparr>), fs1, net1)" and
    s: "stat grant_all example_fs ''/a.txt'' root_cred (example_net (Some ''2''))
          = (Inr (newFileStats\<lparr>st_size := Num 2\<rparr>), fs1, net1)" and
    l: "requests net1 = requests (example_net (Some ''2'')) @ [(HEAD, getRemotePath example_fs ''/a.txt'')]"
    unfolding len2 by auto
  have "server (snd (snd (stat grant_all example_fs ''/a.txt'' root_cred (example_net (Some ''2'')))))
      = server (example_net (Some ''2''))"
    by (simp add: stat_def example_fs_eval getInode_a grant_all_def newFileStats_def
        fetchSize_halves fetch_def Let_def split: sum.splits)
  with s have "server net1 = server (example_net (Some ''2''))" by simp
  with l url have "net1 = example_net (Some ''2'')\<lparr>requests := [(HEAD, ''https://x/a.txt'')]\<rparr>"
    by (cases net1) (simp add: example_net_def)
  with t have first: "\<exists>fs1. stat_twice grant_all example_fs ''/a.txt'' root_cred (example_net (Some ''2''))
       = (Inr (newFileStats\<lparr>st_size := Num 2\<rparr>), fs1,
          example_net (Some ''2'')\<lparr>requests := [(HEAD, ''https://x/a.txt'')]\<rparr>)"
    by blast
  from stat_twice_HEAD_requests [of example_fs "''/a.txt''" newFileStats "example_net None"
      "example_response None" grant_all root_cred, OF nodeAt_a unknown resp success ac ac] none
  have "requests (snd (snd (stat_twice grant_all example_fs ''/a.txt'' root_cred (example_net None))))
       = requests (example_net None)
           @ [(HEAD, getRemotePath example_fs ''/a.txt''), (HEAD, getRemotePath example_fs ''/a.txt'')]"
    by blast
  with url have second: "requests (snd (snd (stat_twice grant_all example_fs ''/a.txt'' root_cred (example_net None))))
       = [(HEAD, ''https://x/a.txt''), (HEAD, ''https://x/a.txt'')]"
    by (simp add: example_net_def)
  from first second show ?thesis by blast
qed

text \<open>
  C5. \<open>stat\<close> on a file node of unknown size issues one HEAD request to the remote
  path and stores \<open>parseInt\<close> of the \<open>Content-Length\<close> header as the size. For an
  absent or empty header that is \<open>-1\<close> (\<open>fetchSize_ok\<close>, \<open>parseInt_absent\<close>); for a
  header that does not start with a number it is \<open>NaN\<close>, not \<open>-1\<close>.
\<close>

theorem stat_unparsable_Content_Length:
  "nodeAt example_fs ''/a.txt'' = Some (IndexFileInode newFileStats)
   \<and> st_size newFileStats = Num (- 1)
   \<and> fst (stat grant_all example_fs ''/a.txt'' root_cred (example_net (Some ''abc'')))
       = Inr (newFileStats\<lparr>st_size := NaN\<rparr>)
   \<and> requests (snd (snd (stat grant_all example_fs ''/a.txt'' root_cred (example_net (Some ''abc'')))))
       = [(HEAD, ''https://x/a.txt'')]"
proof -
  have "stat grant_all example_fs ''/a.txt'' root_cred (example_net (Some ''abc''))
      = (Inr (newFileStats\<lparr>st_size := NaN\<rparr>),
         example_fs\<lparr>fs_index := Some (IndexDirInode newDirStats
           [(''a.txt'', IndexFileInode (newFileStats\<lparr>st_size := NaN\<rparr>)),
            (''dir'', IndexDirInode newDirStats [(''b.txt'', IndexFileInode newFileStats)])])\<rparr>,
         \<lparr>server = example_server (Some ''abc''), requests = [(HEAD, ''https://x/a.txt'')]\<rparr>)"
    by (simp add: stat_def example_fs_eval getInode_a setData_a
      example_net_def example_server_def example_response_def grant_all_def
      fetchSize_def fetch_def headerOrDefault_def parseInt_def StrWhiteSpaceChar_def isDigit_def
      digitsValue_def toNumber_def getRemotePath_def Let_def newFileStats_def)
  moreover have "st_size newFileStats = Num (- 1)"
    by (simp add: newFileStats_def)
  ultimately show ?thesis
    using nodeAt_a by simp
qed

text \<open>
  C6. \<open>preloadFile\<close> tests the type guard before it tests for an absent node, so
  a path that resolves to no node fails with \<open>EISDIR\<close>; \<open>ENOENT\<close> is never raised
  (\<open>preloadFile_never_ENOENT\<close>). A directory fails with \<open>EISDIR\<close> and a file is
  overwritten (\<open>preloadFile_dir\<close>, \<open>preloadFile_file\<close>).
\<close>

theorem preloadFile_absent_path_EISDIR:
  "nodeAt example_fs ''/missing'' = None
   \<and> preloadFile example_fs ''/missing'' [1, 2] = Inl (ApiError EISDIR ''/missing'')"
  by (simp add: nodeAt_def preloadFile_def example_fs_eval getInode_def segments_def)

text \<open>
  C1. As stated the claim fails: \<open>stat\<close> called on a file system whose index request
  is still pending does not wait for it; it finds \<open>_index\<close> undefined and fails,
  although the path resolves once \<open>ready\<close> has been awaited.
\<close>

theorem stat_before_ready_TypeError:
  "fs_ready pending_fs = Pending (Resolves (example_response None))
   \<and> stat grant_all pending_fs ''/a.txt'' root_cred (example_net None)
       = (Inl TypeError, pending_fs, example_net None)
   \<and> fst (ready pending_fs) = Inr example_fs
   \<and> nodeAt example_fs ''/a.txt'' = Some (IndexFileInode newFileStats)"
proof -
  have "fs_ready pending_fs = Pending (Resolves (example_response None))"
    by (simp add: pending_fs_eval)
  moreover have "fs_index pending_fs = None"
    by (simp add: pending_fs_eval)
  then have "stat grant_all pending_fs ''/a.txt'' root_cred (example_net None)
       = (Inl TypeError, pending_fs, example_net None)"
    by (simp add: stat_def)
  moreover have "fst (ready pending_fs) = Inr example_fs"
    by (simp add: ready_pending_eval)
  ultimately show ?thesis
    using nodeAt_a by blast
qed

text \<open>
  C1, as amended. \<open>stat\<close>, \<open>openFile\<close> and \<open>readFile\<close> with read intent,
  \<open>preloadFile\<close> and \<open>empty\<close> read the index without awaiting the readiness signal:
  while the index is not populated they fail at once with a \<open>TypeError\<close> and change
  neither the file system nor the request log. Only \<open>ready\<close> awaits the signal; once
  it has resolved on a constructed file system, the index is populated.
\<close>

theorem index_access_without_await:
  "(fs_index fs = None \<longrightarrow>
      stat acc fs path cred net = (Inl TypeError, fs, net)
    \<and> (\<not> isWriteable flag \<longrightarrow>
          openFile acc fs path flag cred net = (Inl TypeError, fs, net)
        \<and> readFile acc fs path flag cred net = (Inl TypeError, fs, net))
    \<and> preloadFile fs path buf = Inl TypeError
    \<and> empty fs = Inl TypeError)
   \<and> (fst (ready (fst (constructor opts net))) = Inr fs' \<longrightarrow>
        fs_index fs' \<noteq> None \<and> fs_ready fs' = Fulfilled \<and> snd (ready (fst (constructor opts net))) = fs')"
proof -
  have a: "stat acc fs path cred net = (Inl TypeError, fs, net)
    \<and> (\<not> isWriteable flag \<longrightarrow>
          openFile acc fs path flag cred net = (Inl TypeError, fs, net)
        \<and> readFile acc fs path flag cred net = (Inl TypeError, fs, net))
    \<and> preloadFile fs path buf = Inl TypeError
    \<and> empty fs = Inl TypeError" if "fs_index fs = None"
    using that by (simp add: stat_def openFile_def readFile_def preloadFile_def empty_def)
  have b: "fs_index fs' \<noteq> None \<and> fs_ready fs' = Fulfilled \<and> snd (ready (fst (constructor opts net))) = fs'"
    if r: "fst (ready (fst (constructor opts net))) = Inr fs'"
  proof -
    let ?fs = "fst (constructor opts net)"
    from ready_resolves [OF r] have
      eq: "fs' = loadIndex_resume ?fs" and s: "snd (ready ?fs) = fs'"
      and nr: "\<And>e. fs_ready (loadIndex_resume ?fs) \<noteq> Rejected e"
      by auto
    have c: "fs_ready ?fs = Fulfilled \<longrightarrow> fs_index ?fs \<noteq> None"
      using constructor_state by blast
    from loadIndex_resume_state [OF c nr] eq s show ?thesis by simp
  qed
  from a b show ?thesis by blast
qed

theorem index_access_without_await_witness:
  "fs_index pending_fs = None
   \<and> stat grant_all pending_fs ''/a.txt'' root_cred (example_net None)
       = (Inl TypeError, pending_fs, example_net None)
   \<and> openFile grant_all pending_fs ''/a.txt'' read_flag root_cred (example_net None)
       = (Inl TypeError, pending_fs, example_net None)
   \<and> preloadFile pending_fs ''/a.txt'' [1, 2] = Inl TypeError
   \<and> empty pending_fs = Inl TypeError
   \<and> fst (ready pending_fs) = Inr example_fs
   \<and> fs_index example_fs \<noteq> None"
proof -
  have p: "fs_index pending_fs = None" by (simp add: pending_fs_eval)
  have nw: "\<not> isWriteable read_flag" by (simp add: read_flag_def)
  have r: "fst (ready (fst (constructor \<lparr>opt_index = None, opt_baseUrl = Some ''https://x''\<rparr>
             (example_net None)))) = Inr example_fs"
    using ready_pending_eval by (simp add: pending_fs_def)
  from index_access_without_await [of pending_fs grant_all "''/a.txt''" root_cred
      "example_net None" read_flag "[1, 2]"
      "\<lparr>opt_index = None, opt_baseUrl = Some ''https://x''\<rparr>" example_fs] p nw r
    ready_pending_eval
  show ?thesis by simp
qed

end
